theory Spec2Isabelle
  imports Main
begin

section \<open>Strings of the host language\<close>

text \<open>
  The program is TypeScript running on Node.js. A JavaScript string is a sequence of
  UTF-16 code units; a code unit is modelled as a natural number (every string the
  program reads or builds has code units below 65536). String literals of the source
  are written \<open>ascii ''...''\<close>.
\<close>

type_synonym jsstring = "nat list"

definition ascii :: "string \<Rightarrow> jsstring" where
  "ascii s = map of_char s"

text \<open>
  The characters that \<^verbatim>\<open>String.prototype.trim\<close> and \<^verbatim>\<open>parseInt\<close> strip: the
  WhiteSpace and LineTerminator code points of ECMA-262 (TAB, LF, VT, FF, CR, SP, NBSP,
  the Unicode space separators, LS, PS and the byte order mark).
\<close>

definition is_js_whitespace :: "nat \<Rightarrow> bool" where
  "is_js_whitespace c \<longleftrightarrow>
     c = 0x09 \<or> c = 0x0A \<or> c = 0x0B \<or> c = 0x0C \<or> c = 0x0D \<or> c = 0x20 \<or> c = 0xA0 \<or>
     c = 0x1680 \<or> (0x2000 \<le> c \<and> c \<le> 0x200A) \<or> c = 0x2028 \<or> c = 0x2029 \<or>
     c = 0x202F \<or> c = 0x205F \<or> c = 0x3000 \<or> c = 0xFEFF"

text \<open>\<^verbatim>\<open>s.trim()\<close>\<close>

definition js_trim :: "jsstring \<Rightarrow> jsstring" where
  "js_trim s = rev (dropWhile is_js_whitespace (rev (dropWhile is_js_whitespace s)))"

text \<open>\<^verbatim>\<open>s.split(sep)\<close> for a separator of one code unit: the empty string splits into
  one empty piece.\<close>

fun js_split :: "nat \<Rightarrow> jsstring \<Rightarrow> jsstring list" where
  "js_split sep [] = [[]]"
| "js_split sep (c # cs) =
     (if c = sep then [] # js_split sep cs
      else (case js_split sep cs of
              [] \<Rightarrow> [[c]]
            | piece # pieces \<Rightarrow> (c # piece) # pieces))"

text \<open>\<^verbatim>\<open>pieces.join(sep)\<close> on an array of strings.\<close>

fun js_join :: "jsstring \<Rightarrow> jsstring list \<Rightarrow> jsstring" where
  "js_join sep [] = []"
| "js_join sep [x] = x"
| "js_join sep (x # y # ys) = x @ sep @ js_join sep (y # ys)"

text \<open>The decimal form of an integer, as a template literal prints one.\<close>

fun decimal :: "nat \<Rightarrow> jsstring" where
  "decimal n = (if n < 10 then [48 + n] else decimal (n div 10) @ [48 + n mod 10])"

declare decimal.simps [simp del]

definition js_int_to_string :: "int \<Rightarrow> jsstring" where
  "js_int_to_string i = (if i < 0 then 0x2D # decimal (nat (- i)) else decimal (nat i))"


section \<open>Configuration read from the environment\<close>

text \<open>
  \<^verbatim>\<open>parseInt(s, 10)\<close>: leading white space is skipped, one sign is read, then the
  longest run of decimal digits; no digit gives NaN, here \<open>None\<close>. The result is kept as
  the exact integer: the Number that JavaScript makes of it differs only above \<open>2^53\<close>,
  by a rounding that is monotone, so that the clamp below returns the same value.
\<close>

definition is_digit :: "nat \<Rightarrow> bool" where
  "is_digit c \<longleftrightarrow> 48 \<le> c \<and> c \<le> 57"

definition digits_value :: "jsstring \<Rightarrow> nat" where
  "digits_value ds = foldl (\<lambda>acc c. 10 * acc + (c - 48)) 0 ds"

definition parseInt :: "jsstring \<Rightarrow> int option" where
  "parseInt s =
     (let t = dropWhile is_js_whitespace s;
          (negative, u) =
            (case t of
               [] \<Rightarrow> (False, t)
             | c # rest \<Rightarrow>
                 if c = 0x2D then (True, rest)
                 else if c = 0x2B then (False, rest)
                 else (False, t));
          ds = takeWhile is_digit u
      in if ds = [] then None
         else Some (if negative then - int (digits_value ds) else int (digits_value ds)))"

text \<open>
  \<^verbatim>\<open>Math.min(Math.max(5000, parseInt(process.env.OMC_CODEX_TIMEOUT || '180000', 10) || 180000), 600000)\<close>.
  The variable is \<open>None\<close> when it is unset; the empty string is falsy, and so are NaN
  and zero.
\<close>

definition CODEX_TIMEOUT :: "jsstring option \<Rightarrow> int" where
  "CODEX_TIMEOUT env =
     (let text = (case env of
                    None \<Rightarrow> ascii ''180000''
                  | Some v \<Rightarrow> if v = [] then ascii ''180000'' else v);
          parsed = (case parseInt text of
                      None \<Rightarrow> 180000
                    | Some n \<Rightarrow> if n = 0 then 180000 else n)
      in min (max 5000 parsed) 600000)"

definition MAX_CONTEXT_FILES :: nat where
  "MAX_CONTEXT_FILES = 20"

definition MAX_FILE_SIZE :: nat where
  "MAX_FILE_SIZE = 5 * 1024 * 1024"


section \<open>Values decoded from JSON\<close>

text \<open>
  The values \<^verbatim>\<open>JSON.parse\<close> builds, which are also the values a tool call's arguments
  are made of. An object keeps its members in source order; a repeated key is overwritten
  by its last occurrence. A number keeps its literal: the Number it denotes and the text
  JavaScript prints for a Number are IEEE-754 operations, and they enter the functions
  below as the parameter \<open>ns\<close>, which maps a number literal to the text of
  \<^verbatim>\<open>Number.prototype.toString\<close> for its value. A Number is falsy exactly when it is a
  zero, that is, when it prints as \<^verbatim>\<open>0\<close>.
\<close>

datatype json =
    JNull
  | JBool bool
  | JNum jsstring
  | JStr jsstring
  | JArr "json list"
  | JObj "(jsstring \<times> json) list"

datatype exn = SyntaxError | TypeError

definition own_property :: "(jsstring \<times> json) list \<Rightarrow> jsstring \<Rightarrow> json option" where
  "own_property members key = map_of (rev members) key"

text \<open>
  \<^verbatim>\<open>ToString\<close>, as a template literal and \<^verbatim>\<open>Array.prototype.join\<close> apply it. An
  array prints as its elements joined by commas, a null element as the empty string. An
  object prints through its \<^verbatim>\<open>toString\<close> method: the inherited one gives
  \<^verbatim>\<open>[object Object]\<close>; an own property of that name, which in decoded JSON is never a
  function, hides it, the inherited \<^verbatim>\<open>valueOf\<close> returns the object itself, and the
  conversion throws a TypeError.
\<close>

fun ToString :: "(jsstring \<Rightarrow> jsstring) \<Rightarrow> json \<Rightarrow> exn + jsstring"
  and Array_join :: "(jsstring \<Rightarrow> jsstring) \<Rightarrow> jsstring \<Rightarrow> json list \<Rightarrow> exn + jsstring"
where
  "ToString ns JNull = Inr (ascii ''null'')"
| "ToString ns (JBool b) = Inr (if b then ascii ''true'' else ascii ''false'')"
| "ToString ns (JNum lit) = Inr (ns lit)"
| "ToString ns (JStr s) = Inr s"
| "ToString ns (JArr elements) = Array_join ns (ascii '','') elements"
| "ToString ns (JObj members) =
     (case own_property members (ascii ''toString'') of
        None \<Rightarrow> Inr (ascii ''[object Object]'')
      | Some _ \<Rightarrow> Inl TypeError)"
| "Array_join ns sep [] = Inr []"
| "Array_join ns sep (x # rest) =
     (case (if x = JNull then Inr [] else ToString ns x) of
        Inl e \<Rightarrow> Inl e
      | Inr s \<Rightarrow>
          (if rest = [] then Inr s
           else (case Array_join ns sep rest of
                   Inl e \<Rightarrow> Inl e
                 | Inr r \<Rightarrow> Inr (s @ sep @ r))))"

text \<open>\<^verbatim>\<open>ToBoolean\<close> of a decoded value; \<open>None\<close> is \<^verbatim>\<open>undefined\<close>.\<close>

fun truthy :: "(jsstring \<Rightarrow> jsstring) \<Rightarrow> json option \<Rightarrow> bool" where
  "truthy ns None = False"
| "truthy ns (Some JNull) = False"
| "truthy ns (Some (JBool b)) = b"
| "truthy ns (Some (JNum lit)) = (ns lit \<noteq> ascii ''0'')"
| "truthy ns (Some (JStr s)) = (s \<noteq> [])"
| "truthy ns (Some (JArr _)) = True"
| "truthy ns (Some (JObj _)) = True"


section \<open>Context files\<close>

text \<open>
  The file system as \<^verbatim>\<open>validateAndReadFile\<close> sees it: \<^verbatim>\<open>path.resolve\<close>,
  \<^verbatim>\<open>fs.statSync\<close> and \<^verbatim>\<open>fs.readFileSync\<close>, each \<open>None\<close> where the call throws.
  A size is the Number \<^verbatim>\<open>stats.size\<close>, an integer below \<open>2^53\<close>. Every call of
  \<^verbatim>\<open>statSync\<close> and \<^verbatim>\<open>readFileSync\<close> is recorded, in order.
\<close>

record stats =
  isFile :: bool
  size :: nat

record filesystem =
  resolve :: "jsstring \<Rightarrow> jsstring option"
  statSync :: "jsstring \<Rightarrow> stats option"
  readFileSync :: "jsstring \<Rightarrow> jsstring option"

datatype fs_access = Stat jsstring | Read jsstring

text \<open>
  \<^verbatim>\<open>(stats.size / 1024 / 1024).toFixed(1)\<close>. Both divisions are exact in binary floating
  point, and \<^verbatim>\<open>toFixed(1)\<close> takes the integer \<open>n\<close> with \<open>n / 10\<close> nearest to the
  quotient, the larger one of two.
\<close>

definition tenths_of_MiB :: "nat \<Rightarrow> nat" where
  "tenths_of_MiB bytes = (10 * bytes + 524288) div 1048576"

definition toFixed1_MiB :: "nat \<Rightarrow> jsstring" where
  "toFixed1_MiB bytes =
     decimal (tenths_of_MiB bytes div 10) @ ascii ''.'' @ decimal (tenths_of_MiB bytes mod 10)"

definition file_header :: "jsstring \<Rightarrow> jsstring" where
  "file_header shown = ascii ''--- File: '' @ shown @ ascii '' ---''"

text \<open>
  \<^verbatim>\<open>validateAndReadFile\<close>. The argument is a decoded value, since the function tests its
  type at run time. The result is the returned block, or the exception that leaves the
  function, together with the file system calls made.
\<close>

definition validateAndReadFile ::
  "(jsstring \<Rightarrow> jsstring) \<Rightarrow> filesystem \<Rightarrow> json \<Rightarrow> (exn + jsstring) \<times> fs_access list" where
  "validateAndReadFile ns fs filePath =
     (case filePath of
        JStr path \<Rightarrow>
          (case resolve fs path of
             None \<Rightarrow> (Inr (file_header path @ ascii '' (Error reading file)''), [])
           | Some resolved \<Rightarrow>
               (case statSync fs resolved of
                  None \<Rightarrow> (Inr (file_header path @ ascii '' (Error reading file)''), [Stat resolved])
                | Some st \<Rightarrow>
                    if \<not> isFile st then
                      (Inr (file_header path @ ascii '' (Not a regular file)''), [Stat resolved])
                    else if size st > MAX_FILE_SIZE then
                      (Inr (file_header path @ ascii '' (File too large: '' @ toFixed1_MiB (size st)
                              @ ascii ''MB, max 5MB)''),
                       [Stat resolved])
                    else
                      (case readFileSync fs resolved of
                         None \<Rightarrow>
                           (Inr (file_header path @ ascii '' (Error reading file)''),
                            [Stat resolved, Read resolved])
                       | Some content \<Rightarrow>
                           (Inr (file_header path @ [0x0A] @ content),
                            [Stat resolved, Read resolved]))))
      | _ \<Rightarrow>
          (case ToString ns filePath of
             Inl e \<Rightarrow> (Inl e, [])
           | Inr shown \<Rightarrow> (Inr (file_header shown @ ascii '' (Invalid path type)''), [])))"

text \<open>A small file system for the closed examples.\<close>

definition example_fs :: filesystem where
  "example_fs =
     \<lparr> resolve = (\<lambda>path. Some (ascii ''/work/'' @ path)),
       statSync = (\<lambda>path.
         if path = ascii ''/work/notes.txt'' then Some \<lparr> isFile = True, size = 5 \<rparr>
         else if path = ascii ''/work/big.bin'' then Some \<lparr> isFile = True, size = 6291456 \<rparr>
         else if path = ascii ''/work/locked.txt'' then Some \<lparr> isFile = True, size = 9 \<rparr>
         else if path = ascii ''/work/src'' then Some \<lparr> isFile = False, size = 4096 \<rparr>
         else None),
       readFileSync = (\<lambda>path.
         if path = ascii ''/work/notes.txt'' then Some (ascii ''hello'') else None) \<rparr>"


section \<open>Decoding JSON\<close>

text \<open>
  \<^verbatim>\<open>JSON.parse\<close>, after the JSON grammar of ECMA-262: a lexer that cuts the text into
  tokens, and a pushdown recogniser over the tokens that builds the value. JSON white
  space is TAB, LF, CR and SP only. A string may hold any code unit from \<^verbatim>\<open>0x20\<close> on
  but the quote and the backslash, and the escapes
  \<^verbatim>\<open>\" \\ \/ \b \f \n \r \t \uXXXX\<close>. A number is \<^verbatim>\<open>-? (0 | [1-9][0-9]*) (. [0-9]+)? ([eE] [+-]? [0-9]+)?\<close>.
\<close>

datatype token = TLBracket | TRBracket | TLBrace | TRBrace | TComma | TColon | TValue json

definition is_json_whitespace :: "nat \<Rightarrow> bool" where
  "is_json_whitespace c \<longleftrightarrow> c = 0x09 \<or> c = 0x0A \<or> c = 0x0D \<or> c = 0x20"

definition hex_value :: "nat \<Rightarrow> nat option" where
  "hex_value c =
     (if 0x30 \<le> c \<and> c \<le> 0x39 then Some (c - 0x30)
      else if 0x41 \<le> c \<and> c \<le> 0x46 then Some (c - 0x37)
      else if 0x61 \<le> c \<and> c \<le> 0x66 then Some (c - 0x57)
      else None)"

definition escape_char :: "nat \<Rightarrow> nat option" where
  "escape_char e =
     (if e = 0x22 then Some 0x22
      else if e = 0x5C then Some 0x5C
      else if e = 0x2F then Some 0x2F
      else if e = 0x62 then Some 0x08
      else if e = 0x66 then Some 0x0C
      else if e = 0x6E then Some 0x0A
      else if e = 0x72 then Some 0x0D
      else if e = 0x74 then Some 0x09
      else None)"

text \<open>
  The rest of a string token, after its opening quote: the decoded string and the number
  of code units read, the closing quote included.
\<close>

fun lex_string :: "jsstring \<Rightarrow> (jsstring \<times> nat) option" where
  "lex_string [] = None"
| "lex_string (c # cs) =
     (if c = 0x22 then Some ([], 1)
      else if c = 0x5C then
        (case cs of
           [] \<Rightarrow> None
         | e # r \<Rightarrow>
             if e = 0x75 then
               (case r of
                  h1 # h2 # h3 # h4 # r' \<Rightarrow>
                    (case (hex_value h1, hex_value h2, hex_value h3, hex_value h4) of
                       (Some d1, Some d2, Some d3, Some d4) \<Rightarrow>
                         map_option (\<lambda>(s, n). ((4096 * d1 + 256 * d2 + 16 * d3 + d4) # s, n + 6))
                           (lex_string r')
                     | _ \<Rightarrow> None)
                | _ \<Rightarrow> None)
             else
               (case escape_char e of
                  None \<Rightarrow> None
                | Some x \<Rightarrow> map_option (\<lambda>(s, n). (x # s, n + 2)) (lex_string r)))
      else if c < 0x20 then None
      else map_option (\<lambda>(s, n). (c # s, n + 1)) (lex_string cs))"

text \<open>The number literal at the head of a text, if there is one.\<close>

definition lex_number :: "jsstring \<Rightarrow> jsstring option" where
  "lex_number s =
     (let sign = (case s of [] \<Rightarrow> [] | c # _ \<Rightarrow> if c = 0x2D then [c] else []);
          s1 = drop (length sign) s;
          int_part = (case s1 of [] \<Rightarrow> [] | c # _ \<Rightarrow> if c = 0x30 then [c] else takeWhile is_digit s1);
          s2 = drop (length int_part) s1;
          frac = (case s2 of [] \<Rightarrow> [] | c # r \<Rightarrow> if c = 0x2E then c # takeWhile is_digit r else []);
          s3 = drop (length frac) s2;
          exponent =
            (case s3 of
               [] \<Rightarrow> []
             | c # r \<Rightarrow>
                 if c = 0x65 \<or> c = 0x45 then
                   (case r of
                      [] \<Rightarrow> [c]
                    | g # r2 \<Rightarrow>
                        if g = 0x2B \<or> g = 0x2D then c # g # takeWhile is_digit r2
                        else c # takeWhile is_digit r)
                 else [])
      in if int_part = [] \<or> length frac = 1 \<or> (exponent \<noteq> [] \<and> \<not> is_digit (last exponent))
         then None
         else Some (sign @ int_part @ frac @ exponent))"

text \<open>
  The lexer. A token that starts at \<open>c\<close> and is \<open>n\<close> code units long leaves
  \<open>drop (n - 1) cs\<close> of the text \<open>c # cs\<close>.
\<close>

fun lex :: "jsstring \<Rightarrow> token list option" where
  "lex [] = Some []"
| "lex (c # cs) =
     (if is_json_whitespace c then lex cs
      else if c = 0x5B then map_option ((#) TLBracket) (lex cs)
      else if c = 0x5D then map_option ((#) TRBracket) (lex cs)
      else if c = 0x7B then map_option ((#) TLBrace) (lex cs)
      else if c = 0x7D then map_option ((#) TRBrace) (lex cs)
      else if c = 0x2C then map_option ((#) TComma) (lex cs)
      else if c = 0x3A then map_option ((#) TColon) (lex cs)
      else if c = 0x22 then
        (case lex_string cs of
           None \<Rightarrow> None
         | Some (s, n) \<Rightarrow> map_option ((#) (TValue (JStr s))) (lex (drop n cs)))
      else if take 4 (c # cs) = ascii ''true'' then
        map_option ((#) (TValue (JBool True))) (lex (drop 3 cs))
      else if take 5 (c # cs) = ascii ''false'' then
        map_option ((#) (TValue (JBool False))) (lex (drop 4 cs))
      else if take 4 (c # cs) = ascii ''null'' then
        map_option ((#) (TValue JNull)) (lex (drop 3 cs))
      else
        (case lex_number (c # cs) of
           None \<Rightarrow> None
         | Some lit \<Rightarrow> map_option ((#) (TValue (JNum lit))) (lex (drop (length lit - 1) cs))))"

text \<open>
  The recogniser keeps the open arrays and objects on a stack, innermost first, and a
  mode that says what may come next.
\<close>

datatype frame =
    InArray "json list"
  | InObject "(jsstring \<times> json) list"
  | AwaitValue "(jsstring \<times> json) list" jsstring

datatype mode = MValue | MFirst | MKey | MColon | MNext | MDone json

text \<open>A complete value goes to the innermost open array or object, or is the result.\<close>

fun reduce :: "json \<Rightarrow> frame list \<Rightarrow> (mode \<times> frame list) option" where
  "reduce v [] = Some (MDone v, [])"
| "reduce v (InArray elements # st) = Some (MNext, InArray (elements @ [v]) # st)"
| "reduce v (AwaitValue members key # st) = Some (MNext, InObject (members @ [(key, v)]) # st)"
| "reduce v (InObject members # st) = None"

definition expect_value :: "frame list \<Rightarrow> token \<Rightarrow> (mode \<times> frame list) option" where
  "expect_value st tok =
     (case tok of
        TValue v \<Rightarrow> reduce v st
      | TLBracket \<Rightarrow> Some (MFirst, InArray [] # st)
      | TLBrace \<Rightarrow> Some (MFirst, InObject [] # st)
      | _ \<Rightarrow> None)"

definition expect_key :: "frame list \<Rightarrow> token \<Rightarrow> (mode \<times> frame list) option" where
  "expect_key st tok =
     (case (st, tok) of
        (InObject members # rest, TValue (JStr key)) \<Rightarrow> Some (MColon, AwaitValue members key # rest)
      | _ \<Rightarrow> None)"

definition step :: "mode \<times> frame list \<Rightarrow> token \<Rightarrow> (mode \<times> frame list) option" where
  "step state tok =
     (case state of (m, st) \<Rightarrow>
        (case m of
           MValue \<Rightarrow> expect_value st tok
         | MFirst \<Rightarrow>
             (case st of
                InArray elements # rest \<Rightarrow>
                  if tok = TRBracket then reduce (JArr elements) rest else expect_value st tok
              | InObject members # rest \<Rightarrow>
                  if tok = TRBrace then reduce (JObj members) rest else expect_key st tok
              | _ \<Rightarrow> None)
         | MKey \<Rightarrow> expect_key st tok
         | MColon \<Rightarrow> if tok = TColon then Some (MValue, st) else None
         | MNext \<Rightarrow>
             (case st of
                InArray elements # rest \<Rightarrow>
                  if tok = TComma then Some (MValue, st)
                  else if tok = TRBracket then reduce (JArr elements) rest
                  else None
              | InObject members # rest \<Rightarrow>
                  if tok = TComma then Some (MKey, st)
                  else if tok = TRBrace then reduce (JObj members) rest
                  else None
              | _ \<Rightarrow> None)
         | MDone v \<Rightarrow> None))"

fun run_tokens :: "mode \<times> frame list \<Rightarrow> token list \<Rightarrow> (mode \<times> frame list) option" where
  "run_tokens state [] = Some state"
| "run_tokens state (tok # toks) =
     (case step state tok of
        None \<Rightarrow> None
      | Some state' \<Rightarrow> run_tokens state' toks)"

text \<open>\<^verbatim>\<open>JSON.parse(text)\<close>: the value, or the SyntaxError it throws.\<close>

definition JSON_parse :: "jsstring \<Rightarrow> exn + json" where
  "JSON_parse text =
     (case lex text of
        None \<Rightarrow> Inl SyntaxError
      | Some toks \<Rightarrow>
          (case run_tokens (MValue, []) toks of
             Some (MDone v, _) \<Rightarrow> Inr v
           | _ \<Rightarrow> Inl SyntaxError))"


section \<open>The output parser\<close>

text \<open>
  A property read \<^verbatim>\<open>v.key\<close> on a decoded value, for the keys the parser reads
  (\<^verbatim>\<open>type\<close>, \<^verbatim>\<open>content\<close>, \<^verbatim>\<open>text\<close>, which no prototype defines): reading a
  property of \<^verbatim>\<open>null\<close> throws a TypeError, an object gives its own property, and
  every other value gives \<^verbatim>\<open>undefined\<close>, here \<open>None\<close>.
\<close>

definition js_get :: "json \<Rightarrow> jsstring \<Rightarrow> exn + json option" where
  "js_get v key =
     (case v of
        JNull \<Rightarrow> Inl TypeError
      | JObj members \<Rightarrow> Inr (own_property members key)
      | _ \<Rightarrow> Inr None)"

text \<open>
  \<^verbatim>\<open>for (const part of event.content) { if (part.type === 'text' && part.text) messages.push(part.text) }\<close>.
  The loop returns the exception that ended it, if any, and the messages as they are
  then: what was pushed before a throw stays pushed.
\<close>

fun for_parts ::
  "(jsstring \<Rightarrow> jsstring) \<Rightarrow> json list \<Rightarrow> json list \<Rightarrow> exn option \<times> json list" where
  "for_parts ns [] messages = (None, messages)"
| "for_parts ns (part # parts) messages =
     (case js_get part (ascii ''type'') of
        Inl e \<Rightarrow> (Some e, messages)
      | Inr ty \<Rightarrow>
          if ty = Some (JStr (ascii ''text'')) then
            (case js_get part (ascii ''text'') of
               Inl e \<Rightarrow> (Some e, messages)
             | Inr None \<Rightarrow> for_parts ns parts messages
             | Inr (Some tx) \<Rightarrow>
                 if truthy ns (Some tx) then for_parts ns parts (messages @ [tx])
                 else for_parts ns parts messages)
          else for_parts ns parts messages)"

text \<open>The body of the \<^verbatim>\<open>try\<close> block, after \<^verbatim>\<open>JSON.parse\<close> has returned the event.\<close>

definition try_body ::
  "(jsstring \<Rightarrow> jsstring) \<Rightarrow> json \<Rightarrow> json list \<Rightarrow> exn option \<times> json list" where
  "try_body ns event messages =
     (case js_get event (ascii ''type'') of
        Inl e \<Rightarrow> (Some e, messages)
      | Inr ty \<Rightarrow>
          (case (if ty = Some (JStr (ascii ''message'')) then
                   (case js_get event (ascii ''content'') of
                      Inl e \<Rightarrow> (Some e, messages)
                    | Inr content \<Rightarrow>
                        if truthy ns content then
                          (case content of
                             Some (JStr s) \<Rightarrow> (None, messages @ [JStr s])
                           | Some (JArr parts) \<Rightarrow> for_parts ns parts messages
                           | _ \<Rightarrow> (None, messages))
                        else (None, messages))
                 else (None, messages)) of
             (Some e, messages1) \<Rightarrow> (Some e, messages1)
           | (None, messages1) \<Rightarrow>
               (case js_get event (ascii ''type'') of
                  Inl e \<Rightarrow> (Some e, messages1)
                | Inr ty2 \<Rightarrow>
                    if ty2 = Some (JStr (ascii ''output_text'')) then
                      (case js_get event (ascii ''text'') of
                         Inl e \<Rightarrow> (Some e, messages1)
                       | Inr None \<Rightarrow> (None, messages1)
                       | Inr (Some tx) \<Rightarrow>
                           if truthy ns (Some tx) then (None, messages1 @ [tx])
                           else (None, messages1))
                    else (None, messages1))))"

text \<open>
  The loop over the lines: \<^verbatim>\<open>try { ... } catch { }\<close> swallows the SyntaxError of
  \<^verbatim>\<open>JSON.parse\<close> and whatever the body throws.
\<close>

fun for_lines :: "(jsstring \<Rightarrow> jsstring) \<Rightarrow> jsstring list \<Rightarrow> json list \<Rightarrow> json list" where
  "for_lines ns [] messages = messages"
| "for_lines ns (line # lines) messages =
     for_lines ns lines
       (case JSON_parse line of
          Inl e \<Rightarrow> messages
        | Inr event \<Rightarrow> snd (try_body ns event messages))"

text \<open>\<^verbatim>\<open>output.trim().split('\n').filter(l => l.trim())\<close>\<close>

definition codex_lines :: "jsstring \<Rightarrow> jsstring list" where
  "codex_lines output = filter (\<lambda>l. js_trim l \<noteq> []) (js_split 0x0A (js_trim output))"

text \<open>
  \<^verbatim>\<open>parseCodexOutput\<close>. The last line, \<^verbatim>\<open>messages.join('\n') || output\<close>, stands
  outside the \<^verbatim>\<open>try\<close>: an exception of the join leaves the function.
\<close>

definition parseCodexOutput :: "(jsstring \<Rightarrow> jsstring) \<Rightarrow> jsstring \<Rightarrow> exn + jsstring" where
  "parseCodexOutput ns output =
     (case Array_join ns [0x0A] (for_lines ns (codex_lines output) []) of
        Inl e \<Rightarrow> Inl e
      | Inr joined \<Rightarrow> Inr (if joined \<noteq> [] then joined else output))"


section \<open>The process orchestrator\<close>

text \<open>
  \<^verbatim>\<open>executeCodex\<close> registers a timer and four listeners and returns a promise; what
  happens next is decided by the events that arrive. The state below holds the variables
  the callbacks share (\<^verbatim>\<open>settled\<close>, \<^verbatim>\<open>stdout\<close>, \<^verbatim>\<open>stderr\<close>), whether the timer is
  still armed, and what the callbacks did: the calls of \<^verbatim>\<open>resolve\<close> and \<^verbatim>\<open>reject\<close> in
  order, the number of \<^verbatim>\<open>child.kill('SIGTERM')\<close> calls, and the exceptions that left a
  callback uncaught. An exit code is \<open>None\<close> when Node reports \<^verbatim>\<open>null\<close>.
\<close>

datatype outcome = Resolved jsstring | Rejected jsstring

datatype event =
    Timer
  | StdoutData jsstring
  | StderrData jsstring
  | Close "int option"
  | ProcessError jsstring
  | StdinError jsstring

record invocation =
  settled :: bool
  timer_armed :: bool
  stdout :: jsstring
  stderr :: jsstring
  outcomes :: "outcome list"
  kills :: nat
  uncaught :: "exn list"

definition spawned :: invocation where
  "spawned = \<lparr> settled = False, timer_armed = True, stdout = [], stderr = [],
               outcomes = [], kills = 0, uncaught = [] \<rparr>"

definition exit_code_text :: "int option \<Rightarrow> jsstring" where
  "exit_code_text code = (case code of None \<Rightarrow> ascii ''null'' | Some n \<Rightarrow> js_int_to_string n)"

text \<open>One callback. \<^verbatim>\<open>clearTimeout\<close> disarms the timer, and so does its firing.\<close>

fun on_event :: "(jsstring \<Rightarrow> jsstring) \<Rightarrow> int \<Rightarrow> invocation \<Rightarrow> event \<Rightarrow> invocation" where
  "on_event ns timeout s Timer =
     (if \<not> timer_armed s then s
      else if \<not> settled s then
        s\<lparr> timer_armed := False, settled := True, kills := kills s + 1,
           outcomes := outcomes s @
             [Rejected (ascii ''Codex timed out after '' @ js_int_to_string timeout @ ascii ''ms'')] \<rparr>
      else s\<lparr> timer_armed := False \<rparr>)"
| "on_event ns timeout s (StdoutData chunk) = s\<lparr> stdout := stdout s @ chunk \<rparr>"
| "on_event ns timeout s (StderrData chunk) = s\<lparr> stderr := stderr s @ chunk \<rparr>"
| "on_event ns timeout s (Close code) =
     (if \<not> settled s then
        (if code = Some 0 \<or> js_trim (stdout s) \<noteq> [] then
           (case parseCodexOutput ns (stdout s) of
              Inl e \<Rightarrow> s\<lparr> settled := True, timer_armed := False, uncaught := uncaught s @ [e] \<rparr>
            | Inr text \<Rightarrow>
                s\<lparr> settled := True, timer_armed := False,
                   outcomes := outcomes s @ [Resolved text] \<rparr>)
         else
           s\<lparr> settled := True, timer_armed := False,
              outcomes := outcomes s @
                [Rejected (ascii ''Codex exited with code '' @ exit_code_text code @ ascii '': ''
                   @ (if stderr s \<noteq> [] then stderr s else ascii ''No output''))] \<rparr>)
      else s)"
| "on_event ns timeout s (ProcessError message) =
     (if \<not> settled s then
        s\<lparr> settled := True, timer_armed := False, kills := kills s + 1,
           outcomes := outcomes s @ [Rejected (ascii ''Failed to spawn Codex CLI: '' @ message)] \<rparr>
      else s)"
| "on_event ns timeout s (StdinError message) =
     (if \<not> settled s then
        s\<lparr> settled := True, timer_armed := False, kills := kills s + 1,
           outcomes := outcomes s @ [Rejected (ascii ''Stdin write error: '' @ message)] \<rparr>
      else s)"

fun run_events ::
  "(jsstring \<Rightarrow> jsstring) \<Rightarrow> int \<Rightarrow> invocation \<Rightarrow> event list \<Rightarrow> invocation" where
  "run_events ns timeout s [] = s"
| "run_events ns timeout s (e # es) = run_events ns timeout (on_event ns timeout s e) es"

text \<open>
  \<^verbatim>\<open>executeCodex\<close>, as the state of the invocation after the events that reach it. The
  prompt and the model go to the child process only and do not enter any callback.
\<close>

definition executeCodex :: "(jsstring \<Rightarrow> jsstring) \<Rightarrow> int \<Rightarrow> event list \<Rightarrow> invocation" where
  "executeCodex ns timeout events = run_events ns timeout spawned events"

text \<open>The terminal events, and the chunks of output that are not.\<close>

fun is_data :: "event \<Rightarrow> bool" where
  "is_data (StdoutData _) = True"
| "is_data (StderrData _) = True"
| "is_data _ = False"

text \<open>What the chunks of a trace add to the captured \<^verbatim>\<open>stdout\<close> and \<^verbatim>\<open>stderr\<close>.\<close>

fun stdout_of :: "event list \<Rightarrow> jsstring" where
  "stdout_of [] = []"
| "stdout_of (StdoutData chunk # es) = chunk @ stdout_of es"
| "stdout_of (_ # es) = stdout_of es"

fun stderr_of :: "event list \<Rightarrow> jsstring" where
  "stderr_of [] = []"
| "stderr_of (StderrData chunk # es) = chunk @ stderr_of es"
| "stderr_of (_ # es) = stderr_of es"


text \<open>
  The state of an invocation is either running (flag clear, timer armed, nothing done
  yet) or finished (flag set, timer disarmed, and exactly one of: one call of
  \<^verbatim>\<open>resolve\<close> or \<^verbatim>\<open>reject\<close>, or one exception that left the callback).
\<close>

definition running :: "invocation \<Rightarrow> bool" where
  "running s \<longleftrightarrow> \<not> settled s \<and> timer_armed s \<and> outcomes s = [] \<and> kills s = 0 \<and> uncaught s = []"

definition finished :: "invocation \<Rightarrow> bool" where
  "finished s \<longleftrightarrow> settled s \<and> \<not> timer_armed s \<and> length (outcomes s) + length (uncaught s) = 1
     \<and> kills s \<le> 1"


section \<open>The parser, as a function of the decoded events\<close>

text \<open>The events of the lines that decode, in order.\<close>

definition decoded_events :: "jsstring list \<Rightarrow> json list" where
  "decoded_events lines =
     concat (map (\<lambda>l. case JSON_parse l of Inl e \<Rightarrow> [] | Inr event \<Rightarrow> [event]) lines)"

text \<open>
  The specification's account of the parser, word for word: the text is split on line
  boundaries and blank lines are discarded; a line that does not decode is discarded; a
  message event whose payload is a string yields that string; a message event whose
  payload is a sequence of parts yields the text of each part tagged \<^verbatim>\<open>text\<close>, in
  order; an output-text event yields its text field; any other event yields nothing; the
  fragments are joined by newlines.
\<close>

definition spec_lines :: "jsstring \<Rightarrow> jsstring list" where
  "spec_lines output = filter (\<lambda>l. js_trim l \<noteq> []) (js_split 0x0A output)"

definition spec_part_text :: "json \<Rightarrow> jsstring list" where
  "spec_part_text part =
     (case part of
        JObj members \<Rightarrow>
          (if own_property members (ascii ''type'') = Some (JStr (ascii ''text'')) then
             (case own_property members (ascii ''text'') of
                Some (JStr t) \<Rightarrow> [t]
              | _ \<Rightarrow> [])
           else [])
      | _ \<Rightarrow> [])"

definition spec_event_fragments :: "json \<Rightarrow> jsstring list" where
  "spec_event_fragments event =
     (case event of
        JObj members \<Rightarrow>
          (if own_property members (ascii ''type'') = Some (JStr (ascii ''message'')) then
             (case own_property members (ascii ''content'') of
                Some (JStr s) \<Rightarrow> [s]
              | Some (JArr parts) \<Rightarrow> concat (map spec_part_text parts)
              | _ \<Rightarrow> [])
           else if own_property members (ascii ''type'') = Some (JStr (ascii ''output_text'')) then
             (case own_property members (ascii ''text'') of
                Some (JStr t) \<Rightarrow> [t]
              | _ \<Rightarrow> [])
           else [])
      | _ \<Rightarrow> [])"

definition spec_parseCodexOutput :: "jsstring \<Rightarrow> jsstring" where
  "spec_parseCodexOutput output =
     js_join [0x0A] (concat (map spec_event_fragments (decoded_events (spec_lines output))))"

text \<open>
  The values the code takes from one decoded event when nothing throws: the truthiness
  tests of the source drop an empty string (and a zero, \<^verbatim>\<open>false\<close>, \<^verbatim>\<open>null\<close>, a missing
  field), and keep any other value of the field, a string or not.
\<close>

definition part_fragment :: "(jsstring \<Rightarrow> jsstring) \<Rightarrow> json \<Rightarrow> json list" where
  "part_fragment ns part =
     (case part of
        JObj members \<Rightarrow>
          (if own_property members (ascii ''type'') = Some (JStr (ascii ''text'')) then
             (case own_property members (ascii ''text'') of
                None \<Rightarrow> []
              | Some tx \<Rightarrow> if truthy ns (Some tx) then [tx] else [])
           else [])
      | _ \<Rightarrow> [])"

definition event_fragments :: "(jsstring \<Rightarrow> jsstring) \<Rightarrow> json \<Rightarrow> json list" where
  "event_fragments ns event =
     (case event of
        JObj members \<Rightarrow>
          (if own_property members (ascii ''type'') = Some (JStr (ascii ''message'')) then
             (case own_property members (ascii ''content'') of
                Some (JStr s) \<Rightarrow> if s \<noteq> [] then [JStr s] else []
              | Some (JArr parts) \<Rightarrow> concat (map (part_fragment ns) parts)
              | _ \<Rightarrow> [])
           else if own_property members (ascii ''type'') = Some (JStr (ascii ''output_text'')) then
             (case own_property members (ascii ''text'') of
                None \<Rightarrow> []
              | Some tx \<Rightarrow> if truthy ns (Some tx) then [tx] else [])
           else [])
      | _ \<Rightarrow> [])"

text \<open>No part of a message event's sequence of parts is \<^verbatim>\<open>null\<close>.\<close>

definition null_free_parts :: "json \<Rightarrow> bool" where
  "null_free_parts event =
     (case event of
        JObj members \<Rightarrow>
          (if own_property members (ascii ''type'') = Some (JStr (ascii ''message'')) then
             (case own_property members (ascii ''content'') of
                Some (JArr parts) \<Rightarrow> JNull \<notin> set parts
              | _ \<Rightarrow> True)
           else True)
      | _ \<Rightarrow> True)"

text \<open>What one decoded event adds to the messages, throw or no throw.\<close>

definition contributed :: "(jsstring \<Rightarrow> jsstring) \<Rightarrow> json \<Rightarrow> json list" where
  "contributed ns event = snd (try_body ns event [])"

text \<open>The values the decoded events of an output add to the messages, in order.\<close>

definition captured_values :: "(jsstring \<Rightarrow> jsstring) \<Rightarrow> jsstring \<Rightarrow> json list" where
  "captured_values ns output =
     concat (map (contributed ns) (decoded_events (codex_lines output)))"


section \<open>Inputs of the closed examples\<close>

text \<open>
  A number printer for the closed examples: it prints a literal as it is written, which
  is what JavaScript prints for a literal in canonical form (\<^verbatim>\<open>0\<close>, \<^verbatim>\<open>7\<close>,
  \<^verbatim>\<open>1.5\<close>). No example prints a number.
\<close>

definition literal_text :: "jsstring \<Rightarrow> jsstring" where
  "literal_text lit = lit"

definition hi_there :: jsstring where
  "hi_there = ascii ''{\"type\":\"message\",\"content\":\"hi\"}'' @ [0x0A]
     @ ascii ''{\"type\":\"output_text\",\"text\":\"there\"}''"

definition empty_then_there :: jsstring where
  "empty_then_there = ascii ''{\"type\":\"message\",\"content\":\"\"}'' @ [0x0A]
     @ ascii ''{\"type\":\"output_text\",\"text\":\"there\"}''"

definition empty_texts_between :: jsstring where
  "empty_texts_between =
     ascii ''{\"type\":\"message\",\"content\":[{\"type\":\"text\",\"text\":\"\"},{\"type\":\"text\",\"text\":\"b\"}]}''
     @ [0x0A] @ ascii ''{\"type\":\"output_text\",\"text\":\"\"}''
     @ [0x0A] @ ascii ''{\"type\":\"output_text\",\"text\":\"c\"}''"

definition status_event :: jsstring where
  "status_event = ascii ''{\"type\":\"status\"}''"

definition noise_only :: jsstring where
  "noise_only = ascii ''Thinking...'' @ [0x0A] @ ascii ''[warn] retrying''"

definition silent_events :: jsstring where
  "silent_events = ascii ''{\"type\":\"message\",\"content\":\"\"}'' @ [0x0A]
     @ ascii ''{\"type\":\"output_text\",\"text\":\"\"}''"

definition toString_text :: jsstring where
  "toString_text = ascii ''{\"type\":\"output_text\",\"text\":{\"toString\":0}}''"

definition toString_part :: jsstring where
  "toString_part =
     ascii ''{\"type\":\"message\",\"content\":[{\"type\":\"text\",\"text\":{\"toString\":0}}]}''"

text \<open>A no-break space, U+00A0, before an event.\<close>

definition nbsp_event :: jsstring where
  "nbsp_event = [0xA0] @ ascii ''{\"type\":\"output_text\",\"text\":\"a\"}''"

definition single_empty_text :: jsstring where
  "single_empty_text = ascii ''{\"type\":\"output_text\",\"text\":[]}''"

definition two_empty_texts :: jsstring where
  "two_empty_texts = ascii ''{\"type\":\"output_text\",\"text\":[]}'' @ [0x0A]
     @ ascii ''{\"type\":\"output_text\",\"text\":[]}''"


section \<open>The tool handler\<close>

text \<open>
  \<^verbatim>\<open>context_files.map(f => validateAndReadFile(f))\<close>: the blocks in input order, or the
  exception of the first call that throws, and the file system calls made.
\<close>

fun read_context_files ::
  "(jsstring \<Rightarrow> jsstring) \<Rightarrow> filesystem \<Rightarrow> json list \<Rightarrow> (exn + jsstring list) \<times> fs_access list"
where
  "read_context_files ns fs [] = (Inr [], [])"
| "read_context_files ns fs (f # rest) =
     (case validateAndReadFile ns fs f of
        (Inl e, log) \<Rightarrow> (Inl e, log)
      | (Inr block, log) \<Rightarrow>
          (case read_context_files ns fs rest of
             (Inl e, log') \<Rightarrow> (Inl e, log @ log')
           | (Inr blocks, log') \<Rightarrow> (Inr (block # blocks), log @ log')))"

text \<open>The block of one path that is a string.\<close>

definition block_of :: "(jsstring \<Rightarrow> jsstring) \<Rightarrow> filesystem \<Rightarrow> jsstring \<Rightarrow> jsstring" where
  "block_of ns fs path =
     (case fst (validateAndReadFile ns fs (JStr path)) of Inl e \<Rightarrow> [] | Inr block \<Rightarrow> block)"

definition CODEX_VALID_ROLES :: "jsstring list" where
  "CODEX_VALID_ROLES =
     [ascii ''architect'', ascii ''planner'', ascii ''critic'', ascii ''code-reviewer'',
      ascii ''security-reviewer'']"

text \<open>
  The arguments of a call, as the signature types them; \<open>None\<close> is an absent field. The
  elements of \<^verbatim>\<open>context_files\<close> are decoded values, since \<^verbatim>\<open>validateAndReadFile\<close>
  tests their type.
\<close>

record ask_args =
  prompt :: jsstring
  agent_role :: jsstring
  model :: "jsstring option"
  context_files :: "json list option"

record response =
  response_text :: jsstring
  isError :: bool

text \<open>
  What the handler takes from outside this file. \<^verbatim>\<open>detectCodexCli\<close>,
  \<^verbatim>\<open>resolveSystemPrompt\<close> and \<^verbatim>\<open>buildPromptWithSystemContext\<close> are imported from
  modules that are not part of the sources; they enter as the values they return, and
  the first two, which look for the installed CLI and for the prompt of a role, also as
  the file system calls they make, whatever these are. The child process enters as the
  events it sends for a prompt and a model.
\<close>

record cli_detection =
  available :: bool
  error_text :: jsstring
  installHint :: jsstring

record host =
  number_text :: "jsstring \<Rightarrow> jsstring"
  timeout_ms :: int
  CODEX_DEFAULT_MODEL :: jsstring
  files :: filesystem
  detectCodexCli :: cli_detection
  detectCodexCli_accesses :: "fs_access list"
  resolveSystemPrompt :: "jsstring \<Rightarrow> jsstring"
  resolveSystemPrompt_accesses :: "jsstring \<Rightarrow> fs_access list"
  buildPromptWithSystemContext :: "jsstring \<Rightarrow> jsstring option \<Rightarrow> jsstring \<Rightarrow> jsstring"
  child_events :: "jsstring \<Rightarrow> jsstring \<Rightarrow> event list"

text \<open>
  What the handler does besides returning, in order: the calls of the two imported
  functions, every file system call (theirs and those of \<^verbatim>\<open>validateAndReadFile\<close>),
  and the start of the child process with its prompt and model.
\<close>

datatype effect = DetectCli | ResolvePrompt jsstring | Access fs_access | Spawn jsstring jsstring

text \<open>An async function returns, throws (its promise rejects), or never completes.\<close>

datatype 'a completion = Returns 'a | Throws exn | Pending

definition failure :: "jsstring \<Rightarrow> response" where
  "failure message = \<lparr> response_text = message, isError = True \<rparr>"

definition handleAskCodex :: "host \<Rightarrow> ask_args \<Rightarrow> response completion \<times> effect list" where
  "handleAskCodex h args =
     (if agent_role args = [] \<or> agent_role args \<notin> set CODEX_VALID_ROLES then
        (Returns (failure (ascii ''Invalid agent_role: \"'' @ agent_role args
                    @ ascii ''\". Codex requires one of: ''
                    @ js_join (ascii '', '') CODEX_VALID_ROLES)),
         [])
      else if \<not> available (detectCodexCli h) then
        (Returns (failure (ascii ''Codex CLI is not available: '' @ error_text (detectCodexCli h)
                    @ [0x0A, 0x0A] @ installHint (detectCodexCli h))),
         DetectCli # map Access (detectCodexCli_accesses h))
      else
        (let resolvedSystemPrompt = resolveSystemPrompt h (agent_role args);
             before = DetectCli # map Access (detectCodexCli_accesses h)
               @ ResolvePrompt (agent_role args)
               # map Access (resolveSystemPrompt_accesses h (agent_role args));
             run = (\<lambda>fileContext log.
               let fullPrompt =
                     buildPromptWithSystemContext h (prompt args) fileContext resolvedSystemPrompt;
                   engine = (case model args of None \<Rightarrow> CODEX_DEFAULT_MODEL h | Some m \<Rightarrow> m);
                   final = executeCodex (number_text h) (timeout_ms h) (child_events h fullPrompt engine)
               in (case outcomes final of
                     [] \<Rightarrow> Pending
                   | Resolved answer # _ \<Rightarrow> Returns \<lparr> response_text = answer, isError = False \<rparr>
                   | Rejected message # _ \<Rightarrow> Returns (failure (ascii ''Codex CLI error: '' @ message)),
                   before @ map Access log @ [Spawn fullPrompt engine]))
         in (case context_files args of
               None \<Rightarrow> run None []
             | Some paths \<Rightarrow>
                 if length paths > 0 then
                   (if length paths > MAX_CONTEXT_FILES then
                      (Returns (failure (ascii ''Too many context files (max ''
                                  @ decimal MAX_CONTEXT_FILES @ ascii '', got ''
                                  @ decimal (length paths) @ ascii '')'')),
                       before)
                    else
                      (case read_context_files (number_text h) (files h) paths of
                         (Inl e, log) \<Rightarrow> (Throws e, before @ map Access log)
                       | (Inr blocks, log) \<Rightarrow> run (Some (js_join [0x0A, 0x0A] blocks)) log))
                 else run None [])))"

text \<open>A host for the closed examples.\<close>

definition example_host :: host where
  "example_host =
     \<lparr> number_text = literal_text,
       timeout_ms = 180000,
       CODEX_DEFAULT_MODEL = ascii ''gpt-5.2'',
       files = example_fs,
       detectCodexCli = \<lparr> available = True, error_text = [], installHint = [] \<rparr>,
       detectCodexCli_accesses = [Stat (ascii ''/usr/local/bin/codex'')],
       resolveSystemPrompt = (\<lambda>role. ascii ''You are the '' @ role),
       resolveSystemPrompt_accesses = (\<lambda>role. []),
       buildPromptWithSystemContext = (\<lambda>user fileContext system.
         system @ [0x0A, 0x0A]
           @ (case fileContext of None \<Rightarrow> [] | Some block \<Rightarrow> block @ [0x0A, 0x0A]) @ user),
       child_events = (\<lambda>fullPrompt engine. [StdoutData hi_there, Close (Some 0)]) \<rparr>"



definition unprintable_request :: ask_args where
  "unprintable_request =
     \<lparr> prompt = ascii ''review this'', agent_role = ascii ''architect'', model = None,
       context_files =
         Some [JStr (ascii ''notes.txt''), JObj [(ascii ''toString'', JNum (ascii ''0''))]] \<rparr>"


section \<open>The timeout is clamped\<close>

lemma parseInt_default: "parseInt (ascii ''180000'') = Some 180000"
  by (simp add: parseInt_def ascii_def is_js_whitespace_def is_digit_def digits_value_def)

text \<open>
  C9. Whatever the environment variable holds, the timeout lies between 5000 and 600000
  milliseconds, and it is 180000 when the variable is unset.
\<close>

theorem CODEX_TIMEOUT_clamped:
  "5000 \<le> CODEX_TIMEOUT env \<and> CODEX_TIMEOUT env \<le> 600000 \<and> CODEX_TIMEOUT None = 180000"
proof -
  have "5000 \<le> CODEX_TIMEOUT env" and "CODEX_TIMEOUT env \<le> 600000"
    by (simp_all add: CODEX_TIMEOUT_def Let_def)
  moreover have "CODEX_TIMEOUT None = 180000"
    by (simp add: CODEX_TIMEOUT_def parseInt_default)
  ultimately show ?thesis by simp
qed


section \<open>Context files: the size cap\<close>

lemma tenths_of_MiB_nearest:
  "2 * \<bar>10 * int bytes - int (tenths_of_MiB bytes) * 1048576\<bar> \<le> 1048576"
proof -
  define m where "m = 10 * bytes + 524288"
  define n where "n = m div 1048576"
  define r where "r = m mod 1048576"
  have "n * 1048576 + r = m"
    unfolding n_def r_def by (rule div_mult_mod_eq)
  then have "int n * 1048576 + int r = int m"
    by (metis of_nat_add of_nat_mult of_nat_numeral)
  moreover have "int r < 1048576"
    by (simp add: r_def)
  moreover have "0 \<le> int r"
    by simp
  moreover have "int m = 10 * int bytes + 524288"
    by (simp add: m_def)
  ultimately have "2 * \<bar>10 * int bytes - int n * 1048576\<bar> \<le> 1048576"
    by (simp add: abs_le_iff)
  moreover have "tenths_of_MiB bytes = n"
    by (simp add: tenths_of_MiB_def m_def n_def)
  ultimately show ?thesis
    by simp
qed

lemma example_fs_resolve: "resolve example_fs path = Some (ascii ''/work/'' @ path)"
  by (simp add: example_fs_def)

lemma example_fs_stat_big:
  "statSync example_fs (ascii ''/work/big.bin'') = Some \<lparr> isFile = True, size = 6291456 \<rparr>"
  by (simp add: example_fs_def ascii_def)

lemma tenths_of_6_MiB: "tenths_of_MiB 6291456 = 60"
  by (simp add: tenths_of_MiB_def)

text \<open>
  C8. A regular file larger than 5 MiB gives the placeholder block that reports the size
  in MiB with one decimal (the tenth nearest to the exact quotient) and the cap; the only
  file system call is the \<^verbatim>\<open>statSync\<close>, so the content is not read.
\<close>

theorem oversized_file_placeholder:
  assumes "resolve fs path = Some resolved"
    and "statSync fs resolved = Some st"
    and "isFile st"
    and "5 * 1024 * 1024 < size st"
  shows "validateAndReadFile ns fs (JStr path) =
           (Inr (ascii ''--- File: '' @ path @ ascii '' --- (File too large: ''
                  @ decimal (tenths_of_MiB (size st) div 10) @ ascii ''.''
                  @ decimal (tenths_of_MiB (size st) mod 10) @ ascii ''MB, max 5MB)''),
            [Stat resolved])
         \<and> 2 * \<bar>10 * int (size st) - int (tenths_of_MiB (size st)) * 1048576\<bar> \<le> 1048576"
proof -
  have "validateAndReadFile ns fs (JStr path) =
           (Inr (ascii ''--- File: '' @ path @ ascii '' --- (File too large: ''
                  @ decimal (tenths_of_MiB (size st) div 10) @ ascii ''.''
                  @ decimal (tenths_of_MiB (size st) mod 10) @ ascii ''MB, max 5MB)''),
            [Stat resolved])"
    using assms
    by (simp add: validateAndReadFile_def MAX_FILE_SIZE_def toFixed1_MiB_def file_header_def
        ascii_def)
  then show ?thesis
    using tenths_of_MiB_nearest [of "size st"] by blast
qed

theorem oversized_file_placeholder_witness:
  "\<forall>ns. validateAndReadFile ns example_fs (JStr (ascii ''big.bin'')) =
     (Inr (ascii ''--- File: big.bin --- (File too large: 6.0MB, max 5MB)''),
      [Stat (ascii ''/work/big.bin'')])"
proof
  fix ns
  have r: "resolve example_fs (ascii ''big.bin'') = Some (ascii ''/work/big.bin'')"
    by (simp add: example_fs_resolve ascii_def)
  show "validateAndReadFile ns example_fs (JStr (ascii ''big.bin'')) =
     (Inr (ascii ''--- File: big.bin --- (File too large: 6.0MB, max 5MB)''),
      [Stat (ascii ''/work/big.bin'')])"
    using oversized_file_placeholder [OF r example_fs_stat_big, of ns]
    by (simp add: tenths_of_6_MiB decimal.simps [of 6] decimal.simps [of 0] ascii_def)
qed


section \<open>The orchestrator settles at most once\<close>

lemma run_events_append:
  "run_events ns timeout s (es @ es') = run_events ns timeout (run_events ns timeout s es) es'"
  by (induction es arbitrary: s) simp_all

lemma run_events_data:
  "list_all is_data es \<Longrightarrow>
     run_events ns timeout s es =
       s\<lparr> stdout := stdout s @ stdout_of es, stderr := stderr s @ stderr_of es \<rparr>"
proof (induction es arbitrary: s)
  case Nil
  then show ?case by simp
next
  case (Cons e es)
  then show ?case by (cases e) simp_all
qed

text \<open>Once the flag is set and the timer disarmed, an event changes the captured output only.\<close>

lemma on_event_settled:
  assumes "settled s" and "\<not> timer_armed s"
  shows "settled (on_event ns timeout s e) \<and> \<not> timer_armed (on_event ns timeout s e)
       \<and> outcomes (on_event ns timeout s e) = outcomes s
       \<and> kills (on_event ns timeout s e) = kills s
       \<and> uncaught (on_event ns timeout s e) = uncaught s"
  using assms by (cases e) simp_all

lemma run_events_settled:
  assumes "settled s" and "\<not> timer_armed s"
  shows "settled (run_events ns timeout s es) \<and> \<not> timer_armed (run_events ns timeout s es)
       \<and> outcomes (run_events ns timeout s es) = outcomes s
       \<and> kills (run_events ns timeout s es) = kills s
       \<and> uncaught (run_events ns timeout s es) = uncaught s"
  using assms
proof (induction es arbitrary: s)
  case Nil
  then show ?case by simp
next
  case (Cons e es)
  from on_event_settled [OF Cons.prems, of ns timeout e]
  have step: "settled (on_event ns timeout s e)" "\<not> timer_armed (on_event ns timeout s e)"
    and same: "outcomes (on_event ns timeout s e) = outcomes s"
      "kills (on_event ns timeout s e) = kills s"
      "uncaught (on_event ns timeout s e) = uncaught s"
    by simp_all
  from Cons.IH [OF step] same show ?case by simp
qed

lemma on_event_running: "running s \<Longrightarrow> running (on_event ns timeout s e) \<or> finished (on_event ns timeout s e)"
  by (cases e) (auto simp: running_def finished_def split: sum.splits)

lemma on_event_finished: "finished s \<Longrightarrow> finished (on_event ns timeout s e)"
  using on_event_settled [of s ns timeout e] by (auto simp: finished_def)

lemma run_events_finished: "finished s \<Longrightarrow> finished (run_events ns timeout s es)"
  by (induction es arbitrary: s) (simp_all add: on_event_finished)

lemma run_events_running:
  "running s \<Longrightarrow> running (run_events ns timeout s es) \<or> finished (run_events ns timeout s es)"
proof (induction es arbitrary: s)
  case Nil
  then show ?case by simp
next
  case (Cons e es)
  from on_event_running [OF Cons.prems, of ns timeout e] show ?case
  proof
    assume "running (on_event ns timeout s e)"
    then show ?thesis using Cons.IH by simp
  next
    assume "finished (on_event ns timeout s e)"
    then show ?thesis using run_events_finished by simp
  qed
qed

lemma settles_at_most_once:
  "length (outcomes (executeCodex ns timeout events)) \<le> 1
   \<and> kills (executeCodex ns timeout events) \<le> 1"
proof -
  have "running spawned" by (simp add: running_def spawned_def)
  from run_events_running [OF this, of ns timeout events] show ?thesis
    by (auto simp: executeCodex_def running_def finished_def)
qed

text \<open>What the first terminal event does, after any chunks of output.\<close>

lemma timer_first:
  assumes "list_all is_data before"
  shows "outcomes (executeCodex ns timeout (before @ Timer # after)) =
           [Rejected (ascii ''Codex timed out after '' @ js_int_to_string timeout @ ascii ''ms'')]
       \<and> kills (executeCodex ns timeout (before @ Timer # after)) = 1"
proof -
  let ?s = "run_events ns timeout spawned before"
  let ?t = "on_event ns timeout ?s Timer"
  have s: "?s = spawned\<lparr> stdout := stdout spawned @ stdout_of before,
                         stderr := stderr spawned @ stderr_of before \<rparr>"
    using assms by (rule run_events_data)
  have t: "settled ?t" "\<not> timer_armed ?t" "kills ?t = 1"
    "outcomes ?t = [Rejected (ascii ''Codex timed out after '' @ js_int_to_string timeout @ ascii ''ms'')]"
    unfolding s by (simp_all add: spawned_def)
  have "executeCodex ns timeout (before @ Timer # after) = run_events ns timeout ?t after"
    by (simp add: executeCodex_def run_events_append)
  with run_events_settled [OF t(1,2), of ns timeout after] t show ?thesis by simp
qed

lemma close_first:
  assumes "list_all is_data before"
  shows "outcomes (executeCodex ns timeout (before @ Close code # after)) =
           (if code = Some 0 \<or> js_trim (stdout_of before) \<noteq> [] then
              (case parseCodexOutput ns (stdout_of before) of
                 Inl e \<Rightarrow> []
               | Inr text \<Rightarrow> [Resolved text])
            else [Rejected (ascii ''Codex exited with code '' @ exit_code_text code @ ascii '': ''
                    @ (if stderr_of before \<noteq> [] then stderr_of before else ascii ''No output''))])
       \<and> kills (executeCodex ns timeout (before @ Close code # after)) = 0"
proof -
  let ?s = "run_events ns timeout spawned before"
  let ?t = "on_event ns timeout ?s (Close code)"
  have s: "?s = spawned\<lparr> stdout := stdout spawned @ stdout_of before,
                         stderr := stderr spawned @ stderr_of before \<rparr>"
    using assms by (rule run_events_data)
  have t: "settled ?t" "\<not> timer_armed ?t" "kills ?t = 0"
    unfolding s by (simp_all add: spawned_def split: sum.splits)
  have o: "outcomes ?t =
           (if code = Some 0 \<or> js_trim (stdout_of before) \<noteq> [] then
              (case parseCodexOutput ns (stdout_of before) of
                 Inl e \<Rightarrow> []
               | Inr text \<Rightarrow> [Resolved text])
            else [Rejected (ascii ''Codex exited with code '' @ exit_code_text code @ ascii '': ''
                    @ (if stderr_of before \<noteq> [] then stderr_of before else ascii ''No output''))])"
    unfolding s by (simp add: spawned_def split: sum.splits)
  have "executeCodex ns timeout (before @ Close code # after) = run_events ns timeout ?t after"
    by (simp add: executeCodex_def run_events_append)
  with run_events_settled [OF t(1,2), of ns timeout after] t o show ?thesis by simp
qed

text \<open>
  C3. When the timer fires before the process has closed or failed, the invocation sends
  one SIGTERM and rejects with the message that names the configured timeout; whatever
  arrives later changes neither.
\<close>

theorem timeout_kills_once_and_rejects:
  assumes "list_all is_data before"
  shows "outcomes (executeCodex ns (CODEX_TIMEOUT env) (before @ Timer # after)) =
           [Rejected (ascii ''Codex timed out after '' @ js_int_to_string (CODEX_TIMEOUT env)
              @ ascii ''ms'')]
       \<and> kills (executeCodex ns (CODEX_TIMEOUT env) (before @ Timer # after)) = 1"
  using assms by (rule timer_first)

theorem timeout_kills_once_and_rejects_witness:
  "\<forall>ns. outcomes (executeCodex ns (CODEX_TIMEOUT None)
           ([StdoutData (ascii ''working'')] @ Timer # [ProcessError (ascii ''late''), Close None, Timer]))
         = [Rejected (ascii ''Codex timed out after 180000ms'')]
       \<and> kills (executeCodex ns (CODEX_TIMEOUT None)
           ([StdoutData (ascii ''working'')] @ Timer # [ProcessError (ascii ''late''), Close None, Timer]))
         = 1"
proof
  fix ns
  have d: "list_all is_data [StdoutData (ascii ''working'')]" by simp
  have c: "CODEX_TIMEOUT None = 180000"
    by (simp add: CODEX_TIMEOUT_def parseInt_default)
  have n: "js_int_to_string 180000 = ascii ''180000''"
    by (simp add: js_int_to_string_def decimal.simps ascii_def)
  show "outcomes (executeCodex ns (CODEX_TIMEOUT None)
           ([StdoutData (ascii ''working'')] @ Timer # [ProcessError (ascii ''late''), Close None, Timer]))
         = [Rejected (ascii ''Codex timed out after 180000ms'')]
       \<and> kills (executeCodex ns (CODEX_TIMEOUT None)
           ([StdoutData (ascii ''working'')] @ Timer # [ProcessError (ascii ''late''), Close None, Timer]))
         = 1"
    using timeout_kills_once_and_rejects [OF d, of ns None "[ProcessError (ascii ''late''), Close None, Timer]"]
    by (simp add: c n ascii_def)
qed


section \<open>The parser collects what the events contribute\<close>

lemma for_parts_appends:
  "for_parts ns parts messages =
     (fst (for_parts ns parts []), messages @ snd (for_parts ns parts []))"
proof (induction parts arbitrary: messages)
  case Nil
  then show ?case by simp
next
  case (Cons part parts)
  note IH = Cons.IH
  show ?case
    apply (simp split: sum.splits option.splits)
    apply (intro conjI impI allI)
    apply (subst IH, subst (2 3) IH, simp)+
    done
qed

lemma try_body_appends:
  "snd (try_body ns event messages) = messages @ contributed ns event"
  unfolding contributed_def try_body_def
  by (auto simp: for_parts_appends [of ns _ messages]
      split: sum.splits option.splits json.splits prod.splits)

lemma for_lines_contributed:
  "for_lines ns lines messages =
     messages @ concat (map (contributed ns) (decoded_events lines))"
proof (induction lines arbitrary: messages)
  case Nil
  then show ?case by (simp add: decoded_events_def)
next
  case (Cons line lines)
  show ?case
  proof (cases "JSON_parse line")
    case (Inl e)
    then show ?thesis using Cons.IH [of messages] by (simp add: decoded_events_def)
  next
    case (Inr event)
    then show ?thesis
      using Cons.IH [of "messages @ contributed ns event"]
      by (simp add: decoded_events_def try_body_appends)
  qed
qed

lemma for_parts_null_free:
  "JNull \<notin> set parts \<Longrightarrow>
     for_parts ns parts [] = (None, concat (map (part_fragment ns) parts))"
proof (induction parts)
  case Nil
  then show ?case by simp
next
  case (Cons part parts)
  define rest where "rest = concat (map (part_fragment ns) parts)"
  from Cons have IH: "for_parts ns parts [] = (None, rest)" and part: "part \<noteq> JNull"
    by (auto simp: rest_def)
  have "for_parts ns (part # parts) [] = (None, part_fragment ns part @ rest)"
    using part
    by (cases part)
      (auto simp: js_get_def part_fragment_def IH for_parts_appends [of ns parts "[_]"]
        split: option.splits)
  then show ?case by (simp add: rest_def)
qed

lemma message_neq_output_text:
  "ascii ''message'' \<noteq> ascii ''output_text''" "ascii ''output_text'' \<noteq> ascii ''message''"
  by (simp_all add: ascii_def)

lemma contributed_null_free:
  "null_free_parts event \<Longrightarrow> contributed ns event = event_fragments ns event"
  unfolding contributed_def try_body_def null_free_parts_def event_fragments_def
  by (cases event)
    (auto simp: js_get_def for_parts_null_free message_neq_output_text
      split: option.splits json.splits)

lemma contributed_all_null_free:
  "list_all null_free_parts events \<Longrightarrow>
     map (contributed ns) events = map (event_fragments ns) events"
  by (induction events) (simp_all add: contributed_null_free)

lemmas json_eval =
  ascii_def JSON_parse_def is_json_whitespace_def step_def expect_value_def expect_key_def
  hex_value_def escape_char_def lex_number_def is_digit_def

lemmas lines_eval = ascii_def codex_lines_def js_trim_def is_js_whitespace_def

lemmas body_eval =
  ascii_def contributed_def try_body_def js_get_def own_property_def event_fragments_def
  part_fragment_def null_free_parts_def

lemma hi_there_lines:
  "codex_lines hi_there =
     [ascii ''{\"type\":\"message\",\"content\":\"hi\"}'',
      ascii ''{\"type\":\"output_text\",\"text\":\"there\"}'']"
  by (simp add: hi_there_def lines_eval)

lemma parse_message_hi:
  "JSON_parse (ascii ''{\"type\":\"message\",\"content\":\"hi\"}'') =
     Inr (JObj [(ascii ''type'', JStr (ascii ''message'')), (ascii ''content'', JStr (ascii ''hi''))])"
  by (simp add: json_eval)

lemma parse_output_text_there:
  "JSON_parse (ascii ''{\"type\":\"output_text\",\"text\":\"there\"}'') =
     Inr (JObj [(ascii ''type'', JStr (ascii ''output_text'')),
                (ascii ''text'', JStr (ascii ''there''))])"
  by (simp add: json_eval)

lemma hi_there_events:
  "decoded_events (codex_lines hi_there) =
     [JObj [(ascii ''type'', JStr (ascii ''message'')), (ascii ''content'', JStr (ascii ''hi''))],
      JObj [(ascii ''type'', JStr (ascii ''output_text'')), (ascii ''text'', JStr (ascii ''there''))]]"
  by (simp add: hi_there_lines decoded_events_def parse_message_hi parse_output_text_there)

lemma parseCodexOutput_fragments:
  assumes "list_all null_free_parts (decoded_events (codex_lines output))"
  shows "parseCodexOutput ns output =
           (case Array_join ns [0x0A]
                   (concat (map (event_fragments ns) (decoded_events (codex_lines output)))) of
              Inl e \<Rightarrow> Inl e
            | Inr joined \<Rightarrow> Inr (if joined = [] then output else joined))"
proof -
  have m: "map (contributed ns) (decoded_events (codex_lines output)) =
           map (event_fragments ns) (decoded_events (codex_lines output))"
    using assms by (rule contributed_all_null_free)
  have "for_lines ns (codex_lines output) [] =
          concat (map (event_fragments ns) (decoded_events (codex_lines output)))"
    unfolding for_lines_contributed m by simp
  then show ?thesis
    by (simp add: parseCodexOutput_def split: sum.splits)
qed

text \<open>
  C5, as the code has it. When no part of a message event is \<^verbatim>\<open>null\<close> and the join
  of the captured values does not throw, the parser returns the values of
  \<open>event_fragments\<close> over the decoded events of the non-blank lines, in order, printed
  and joined by newlines, and the raw input when that text is empty: a message event
  gives its non-empty string content, or the truthy \<^verbatim>\<open>text\<close> of each part of type
  \<^verbatim>\<open>text\<close>; an output_text event gives its truthy \<^verbatim>\<open>text\<close>.
\<close>

theorem parseCodexOutput_joins_fragments:
  assumes "list_all null_free_parts (decoded_events (codex_lines output))"
    and "Array_join ns [0x0A]
           (concat (map (event_fragments ns) (decoded_events (codex_lines output)))) = Inr joined"
  shows "parseCodexOutput ns output = Inr (if joined = [] then output else joined)"
  using parseCodexOutput_fragments [OF assms(1), of ns] assms(2) by simp

text \<open>The example of the specification: the two events yield \<^verbatim>\<open>hi\<close>, newline, \<^verbatim>\<open>there\<close>.\<close>

theorem parseCodexOutput_joins_fragments_witness:
  "list_all null_free_parts (decoded_events (codex_lines hi_there))
   \<and> Array_join literal_text [0x0A]
         (concat (map (event_fragments literal_text) (decoded_events (codex_lines hi_there))))
       = Inr (ascii ''hi'' @ [0x0A] @ ascii ''there'')
   \<and> parseCodexOutput literal_text hi_there = Inr (ascii ''hi'' @ [0x0A] @ ascii ''there'')"
proof -
  have h: "list_all null_free_parts (decoded_events (codex_lines hi_there))"
    by (simp add: hi_there_events body_eval)
  have j: "Array_join literal_text [0x0A]
         (concat (map (event_fragments literal_text) (decoded_events (codex_lines hi_there))))
       = Inr (ascii ''hi'' @ [0x0A] @ ascii ''there'')"
    by (simp add: hi_there_events body_eval)
  have "parseCodexOutput literal_text hi_there = Inr (ascii ''hi'' @ [0x0A] @ ascii ''there'')"
    using parseCodexOutput_joins_fragments [OF h j] by (simp add: ascii_def)
  with h j show ?thesis by blast
qed

text \<open>
  C5, as the specification words it, fails in three ways. An empty string payload is a
  string and an empty text is a text, so the specification's parser yields empty
  fragments where the code, which tests each value for truthiness, skips them. The
  specification splits the text as it is, the code trims it first. And when nothing is
  captured the specification's join is the empty text, where the code returns its input.
\<close>

lemma empty_then_there_lines:
  "codex_lines empty_then_there =
     [ascii ''{\"type\":\"message\",\"content\":\"\"}'',
      ascii ''{\"type\":\"output_text\",\"text\":\"there\"}'']"
  "spec_lines empty_then_there = codex_lines empty_then_there"
  by (simp_all add: empty_then_there_def spec_lines_def lines_eval)

lemma parse_message_empty:
  "JSON_parse (ascii ''{\"type\":\"message\",\"content\":\"\"}'') =
     Inr (JObj [(ascii ''type'', JStr (ascii ''message'')), (ascii ''content'', JStr [])])"
  by (simp add: json_eval)

lemma empty_then_there_events:
  "decoded_events (codex_lines empty_then_there) =
     [JObj [(ascii ''type'', JStr (ascii ''message'')), (ascii ''content'', JStr [])],
      JObj [(ascii ''type'', JStr (ascii ''output_text'')), (ascii ''text'', JStr (ascii ''there''))]]"
  by (simp add: empty_then_there_lines(1) decoded_events_def parse_message_empty
      parse_output_text_there)

lemma empty_texts_between_lines:
  "codex_lines empty_texts_between =
     [ascii ''{\"type\":\"message\",\"content\":[{\"type\":\"text\",\"text\":\"\"},{\"type\":\"text\",\"text\":\"b\"}]}'',
      ascii ''{\"type\":\"output_text\",\"text\":\"\"}'',
      ascii ''{\"type\":\"output_text\",\"text\":\"c\"}'']"
  "spec_lines empty_texts_between = codex_lines empty_texts_between"
  by (simp_all add: empty_texts_between_def spec_lines_def lines_eval)

lemma parse_message_parts:
  "JSON_parse (ascii ''{\"type\":\"message\",\"content\":[{\"type\":\"text\",\"text\":\"\"},{\"type\":\"text\",\"text\":\"b\"}]}'') =
     Inr (JObj [(ascii ''type'', JStr (ascii ''message'')),
                (ascii ''content'',
                 JArr [JObj [(ascii ''type'', JStr (ascii ''text'')), (ascii ''text'', JStr [])],
                       JObj [(ascii ''type'', JStr (ascii ''text'')),
                             (ascii ''text'', JStr (ascii ''b''))]])])"
  by (simp add: json_eval)

lemma parse_output_text_empty:
  "JSON_parse (ascii ''{\"type\":\"output_text\",\"text\":\"\"}'') =
     Inr (JObj [(ascii ''type'', JStr (ascii ''output_text'')), (ascii ''text'', JStr [])])"
  by (simp add: json_eval)

lemma parse_output_text_c:
  "JSON_parse (ascii ''{\"type\":\"output_text\",\"text\":\"c\"}'') =
     Inr (JObj [(ascii ''type'', JStr (ascii ''output_text'')), (ascii ''text'', JStr (ascii ''c''))])"
  by (simp add: json_eval)

lemma empty_texts_between_events:
  "decoded_events (codex_lines empty_texts_between) =
     [JObj [(ascii ''type'', JStr (ascii ''message'')),
            (ascii ''content'',
             JArr [JObj [(ascii ''type'', JStr (ascii ''text'')), (ascii ''text'', JStr [])],
                   JObj [(ascii ''type'', JStr (ascii ''text'')),
                         (ascii ''text'', JStr (ascii ''b''))]])],
      JObj [(ascii ''type'', JStr (ascii ''output_text'')), (ascii ''text'', JStr [])],
      JObj [(ascii ''type'', JStr (ascii ''output_text'')), (ascii ''text'', JStr (ascii ''c''))]]"
  by (simp add: empty_texts_between_lines(1) decoded_events_def parse_message_parts
      parse_output_text_empty parse_output_text_c)

lemma nbsp_event_lines:
  "codex_lines nbsp_event = [ascii ''{\"type\":\"output_text\",\"text\":\"a\"}'']"
  "js_split 0x0A nbsp_event = [nbsp_event]"
  "spec_lines nbsp_event = [nbsp_event]"
  by (simp_all add: nbsp_event_def spec_lines_def lines_eval)

lemma nbsp_event_does_not_decode: "JSON_parse nbsp_event = Inl SyntaxError"
  by (simp add: nbsp_event_def json_eval)

lemma parse_output_text_a:
  "JSON_parse (ascii ''{\"type\":\"output_text\",\"text\":\"a\"}'') =
     Inr (JObj [(ascii ''type'', JStr (ascii ''output_text'')), (ascii ''text'', JStr (ascii ''a''))])"
  by (simp add: json_eval)

lemma nbsp_event_events:
  "decoded_events (codex_lines nbsp_event) =
     [JObj [(ascii ''type'', JStr (ascii ''output_text'')), (ascii ''text'', JStr (ascii ''a''))]]"
  by (simp add: decoded_events_def nbsp_event_lines(1) parse_output_text_a)

lemma parseCodexOutput_nbsp_event: "parseCodexOutput ns nbsp_event = Inr (ascii ''a'')"
  by (simp add: parseCodexOutput_def for_lines_contributed nbsp_event_events body_eval)

lemma status_event_lines:
  "codex_lines status_event = [status_event]" "spec_lines status_event = [status_event]"
  by (simp_all add: status_event_def spec_lines_def lines_eval)

lemma parse_status_event:
  "JSON_parse status_event = Inr (JObj [(ascii ''type'', JStr (ascii ''status''))])"
  by (simp add: status_event_def json_eval)

lemma status_event_events:
  "decoded_events [status_event] = [JObj [(ascii ''type'', JStr (ascii ''status''))]]"
  by (simp add: decoded_events_def parse_status_event)

theorem empty_payload_counterexample:
  "parseCodexOutput literal_text empty_then_there = Inr (ascii ''there'')
   \<and> spec_parseCodexOutput empty_then_there = [0x0A] @ ascii ''there''
   \<and> parseCodexOutput literal_text empty_then_there \<noteq> Inr (spec_parseCodexOutput empty_then_there)
   \<and> parseCodexOutput literal_text empty_texts_between = Inr (ascii ''b'' @ [0x0A] @ ascii ''c'')
   \<and> spec_parseCodexOutput empty_texts_between =
       [0x0A] @ ascii ''b'' @ [0x0A, 0x0A] @ ascii ''c''
   \<and> parseCodexOutput literal_text nbsp_event = Inr (ascii ''a'')
   \<and> spec_parseCodexOutput nbsp_event = []
   \<and> parseCodexOutput literal_text status_event = Inr status_event
   \<and> spec_parseCodexOutput status_event = []
   \<and> status_event \<noteq> []"
proof -
  have code: "parseCodexOutput literal_text empty_then_there = Inr (ascii ''there'')"
    by (simp add: parseCodexOutput_def for_lines_contributed empty_then_there_events body_eval)
  have spec: "spec_parseCodexOutput empty_then_there = [0x0A] @ ascii ''there''"
    by (simp add: spec_parseCodexOutput_def empty_then_there_lines(2) empty_then_there_events
        spec_event_fragments_def own_property_def ascii_def)
  have diff: "parseCodexOutput literal_text empty_then_there \<noteq>
      Inr (spec_parseCodexOutput empty_then_there)"
    using code spec by (simp add: ascii_def)
  have code2: "parseCodexOutput literal_text empty_texts_between =
      Inr (ascii ''b'' @ [0x0A] @ ascii ''c'')"
    by (simp add: parseCodexOutput_def for_lines_contributed empty_texts_between_events body_eval)
  have spec2: "spec_parseCodexOutput empty_texts_between =
       [0x0A] @ ascii ''b'' @ [0x0A, 0x0A] @ ascii ''c''"
    by (simp add: spec_parseCodexOutput_def empty_texts_between_lines(2)
        empty_texts_between_events spec_event_fragments_def spec_part_text_def own_property_def
        ascii_def)
  have spec3: "spec_parseCodexOutput nbsp_event = []"
    by (simp add: spec_parseCodexOutput_def nbsp_event_lines(3) decoded_events_def
        nbsp_event_does_not_decode)
  have code4: "parseCodexOutput literal_text status_event = Inr status_event"
    by (simp add: parseCodexOutput_def for_lines_contributed status_event_lines(1)
        status_event_events body_eval)
  have spec4: "spec_parseCodexOutput status_event = []"
    by (simp add: spec_parseCodexOutput_def status_event_lines(2) status_event_events
        spec_event_fragments_def own_property_def ascii_def)
  have ne: "status_event \<noteq> []"
    by (simp add: status_event_def ascii_def)
  from code spec diff code2 spec2 parseCodexOutput_nbsp_event [of literal_text] spec3 code4 spec4 ne
  show ?thesis by blast
qed


section \<open>The fallback to the raw output\<close>

lemma decoded_events_none:
  "list_all (\<lambda>l. JSON_parse l = Inl SyntaxError) lines \<Longrightarrow> decoded_events lines = []"
  by (induction lines) (simp_all add: decoded_events_def)

text \<open>
  C6, as the code has it. The parser trims the whole output before it splits it; when
  none of the lines it then reads decodes as JSON, it returns its input unchanged.
\<close>

theorem non_json_output_unchanged:
  assumes "list_all (\<lambda>l. JSON_parse l = Inl SyntaxError) (codex_lines output)"
  shows "parseCodexOutput ns output = Inr output"
  using decoded_events_none [OF assms]
  by (simp add: parseCodexOutput_def for_lines_contributed)

lemma noise_only_lines:
  "codex_lines noise_only = [ascii ''Thinking...'', ascii ''[warn] retrying'']"
  by (simp add: noise_only_def lines_eval)

lemma noise_does_not_decode:
  "JSON_parse (ascii ''Thinking...'') = Inl SyntaxError"
  "JSON_parse (ascii ''[warn] retrying'') = Inl SyntaxError"
  by (simp_all add: json_eval)

theorem non_json_output_unchanged_witness:
  "list_all (\<lambda>l. JSON_parse l = Inl SyntaxError) (codex_lines noise_only)
   \<and> parseCodexOutput literal_text noise_only = Inr noise_only"
proof -
  have h: "list_all (\<lambda>l. JSON_parse l = Inl SyntaxError) (codex_lines noise_only)"
    by (simp add: noise_only_lines noise_does_not_decode)
  from h non_json_output_unchanged [OF h, of literal_text] show ?thesis by simp
qed

text \<open>
  C6, as it is worded, fails: the one line of \<open>nbsp_event\<close> does not decode, since a
  no-break space is no JSON white space; \<^verbatim>\<open>trim\<close> strips it from the output before
  the split, the event decodes, and the parser returns \<^verbatim>\<open>a\<close>, not its input.
\<close>

theorem trimmed_prefix_counterexample:
  "list_all (\<lambda>l. JSON_parse l = Inl SyntaxError) (js_split 0x0A nbsp_event)
   \<and> parseCodexOutput literal_text nbsp_event = Inr (ascii ''a'')
   \<and> parseCodexOutput literal_text nbsp_event \<noteq> Inr nbsp_event"
proof -
  have lines: "list_all (\<lambda>l. JSON_parse l = Inl SyntaxError) (js_split 0x0A nbsp_event)"
    by (simp add: nbsp_event_lines(2) nbsp_event_does_not_decode)
  have code: "parseCodexOutput literal_text nbsp_event = Inr (ascii ''a'')"
    by (rule parseCodexOutput_nbsp_event)
  have "ascii ''a'' \<noteq> nbsp_event"
    by (simp add: nbsp_event_def ascii_def)
  with lines code show ?thesis by simp
qed

lemma for_lines_captured: "for_lines ns (codex_lines output) [] = captured_values ns output"
  by (simp add: for_lines_contributed captured_values_def)

lemma Array_join_single: "v \<noteq> JNull \<Longrightarrow> Array_join ns sep [v] = ToString ns v"
  by (simp split: sum.splits)

lemma ToString_null_not_empty: "ToString ns JNull \<noteq> Inr []"
  by (simp add: ascii_def)

lemma Array_join_several:
  assumes "Array_join ns sep (x # y # rest) = Inr joined" and "sep \<noteq> []"
  shows "joined \<noteq> []"
  using assms by (auto split: sum.splits if_splits)

lemma close_without_output:
  assumes "list_all is_data before" and "stdout_of before = []"
  shows "outcomes (executeCodex ns timeout (before @ Close code # after)) =
     (if code = Some 0 then [Resolved []]
      else [Rejected (ascii ''Codex exited with code '' @ exit_code_text code @ ascii '': ''
              @ (if stderr_of before \<noteq> [] then stderr_of before else ascii ''No output''))])"
proof -
  have e: "parseCodexOutput ns [] = Inr []"
    by (simp add: parseCodexOutput_def codex_lines_def js_trim_def)
  have t: "js_trim [] = []"
    by (simp add: js_trim_def)
  show ?thesis
    using close_first [OF assms(1), of ns timeout code after] by (simp add: assms(2) e t)
qed

text \<open>
  C10, as the code has it. The parser returns the raw input when the captured values,
  printed and joined by newlines, give the empty text: when no decoded event captures a
  value, and when the one captured value prints as the empty string. With two or more
  captured values the joined text is not empty and is returned. A message event whose
  content is the empty string and an output_text event whose text is the empty string
  capture nothing, and neither does a part whose text is the empty string. The empty
  input gives the empty result; an engine that writes nothing to its output resolves
  with the empty string when it exits with code 0, and is otherwise rejected, with what
  it wrote to its error stream or with \<^verbatim>\<open>No output\<close>.
\<close>

theorem fallback_when_join_is_empty:
  "(Array_join ns [0x0A] (captured_values ns output) = Inr []
     \<longrightarrow> parseCodexOutput ns output = Inr output)
   \<and> (captured_values ns output = []
      \<or> (\<exists>v. captured_values ns output = [v] \<and> ToString ns v = Inr [])
     \<longrightarrow> parseCodexOutput ns output = Inr output)
   \<and> (2 \<le> length (captured_values ns output)
        \<and> Array_join ns [0x0A] (captured_values ns output) = Inr joined
      \<longrightarrow> joined \<noteq> [] \<and> parseCodexOutput ns output = Inr joined)
   \<and> (own_property members (ascii ''type'') = Some (JStr (ascii ''message''))
        \<and> own_property members (ascii ''content'') = Some (JStr [])
      \<longrightarrow> contributed ns (JObj members) = [])
   \<and> (own_property members (ascii ''type'') = Some (JStr (ascii ''output_text''))
        \<and> own_property members (ascii ''text'') = Some (JStr [])
      \<longrightarrow> contributed ns (JObj members) = [])
   \<and> (own_property members (ascii ''type'') = Some (JStr (ascii ''message''))
        \<and> own_property members (ascii ''content'') = Some (JArr [JObj part])
        \<and> own_property part (ascii ''type'') = Some (JStr (ascii ''text''))
        \<and> own_property part (ascii ''text'') = Some (JStr [])
      \<longrightarrow> contributed ns (JObj members) = [])
   \<and> parseCodexOutput ns [] = Inr []
   \<and> (list_all is_data before \<and> stdout_of before = []
      \<longrightarrow> outcomes (executeCodex ns timeout (before @ Close code # after)) =
            (if code = Some 0 then [Resolved []]
             else [Rejected (ascii ''Codex exited with code '' @ exit_code_text code @ ascii '': ''
                     @ (if stderr_of before \<noteq> [] then stderr_of before
                        else ascii ''No output''))]))"
proof (intro conjI impI)
  assume "Array_join ns [0x0A] (captured_values ns output) = Inr []"
  then show "parseCodexOutput ns output = Inr output"
    by (simp add: parseCodexOutput_def for_lines_captured)
next
  assume "captured_values ns output = []
      \<or> (\<exists>v. captured_values ns output = [v] \<and> ToString ns v = Inr [])"
  then show "parseCodexOutput ns output = Inr output"
  proof
    assume "captured_values ns output = []"
    then show ?thesis
      by (simp add: parseCodexOutput_def for_lines_captured)
  next
    assume "\<exists>v. captured_values ns output = [v] \<and> ToString ns v = Inr []"
    then obtain v where v: "captured_values ns output = [v]" and p: "ToString ns v = Inr []"
      by blast
    from p have "v \<noteq> JNull"
      using ToString_null_not_empty by auto
    with p have "Array_join ns [0x0A] [v] = Inr []"
      by (simp add: Array_join_single)
    then show ?thesis
      by (simp add: parseCodexOutput_def for_lines_captured v)
  qed
next
  assume a: "2 \<le> length (captured_values ns output)
        \<and> Array_join ns [0x0A] (captured_values ns output) = Inr joined"
  then obtain x y rest where c: "captured_values ns output = x # y # rest"
    by (cases "captured_values ns output"; cases "tl (captured_values ns output)") auto
  with a have j: "Array_join ns [0x0A] (x # y # rest) = Inr joined"
    by simp
  then have n: "joined \<noteq> []"
    by (rule Array_join_several) simp
  from a n show "joined \<noteq> []" and "parseCodexOutput ns output = Inr joined"
    by (simp_all add: parseCodexOutput_def for_lines_captured)
next
  assume "own_property members (ascii ''type'') = Some (JStr (ascii ''message''))
        \<and> own_property members (ascii ''content'') = Some (JStr [])"
  then show "contributed ns (JObj members) = []"
    by (simp add: contributed_def try_body_def js_get_def message_neq_output_text)
next
  assume "own_property members (ascii ''type'') = Some (JStr (ascii ''output_text''))
        \<and> own_property members (ascii ''text'') = Some (JStr [])"
  then show "contributed ns (JObj members) = []"
    by (simp add: contributed_def try_body_def js_get_def message_neq_output_text)
next
  assume "own_property members (ascii ''type'') = Some (JStr (ascii ''message''))
        \<and> own_property members (ascii ''content'') = Some (JArr [JObj part])
        \<and> own_property part (ascii ''type'') = Some (JStr (ascii ''text''))
        \<and> own_property part (ascii ''text'') = Some (JStr [])"
  then show "contributed ns (JObj members) = []"
    by (simp add: contributed_def try_body_def js_get_def message_neq_output_text)
next
  show "parseCodexOutput ns [] = Inr []"
    by (simp add: parseCodexOutput_def codex_lines_def js_trim_def)
next
  assume "list_all is_data before \<and> stdout_of before = []"
  then show "outcomes (executeCodex ns timeout (before @ Close code # after)) =
            (if code = Some 0 then [Resolved []]
             else [Rejected (ascii ''Codex exited with code '' @ exit_code_text code @ ascii '': ''
                     @ (if stderr_of before \<noteq> [] then stderr_of before
                        else ascii ''No output''))])"
    using close_without_output by blast
qed

lemma silent_events_lines:
  "codex_lines silent_events =
     [ascii ''{\"type\":\"message\",\"content\":\"\"}'',
      ascii ''{\"type\":\"output_text\",\"text\":\"\"}'']"
  by (simp add: silent_events_def lines_eval)

lemma parse_output_text_array:
  "JSON_parse (ascii ''{\"type\":\"output_text\",\"text\":[]}'') =
     Inr (JObj [(ascii ''type'', JStr (ascii ''output_text'')), (ascii ''text'', JArr [])])"
  by (simp add: json_eval)

lemma silent_events_events:
  "decoded_events (codex_lines silent_events) =
     [JObj [(ascii ''type'', JStr (ascii ''message'')), (ascii ''content'', JStr [])],
      JObj [(ascii ''type'', JStr (ascii ''output_text'')), (ascii ''text'', JStr [])]]"
  by (simp add: decoded_events_def silent_events_lines parse_message_empty
      parse_output_text_empty)

lemma silent_events_captured: "captured_values ns silent_events = []"
  by (simp add: captured_values_def silent_events_events body_eval)

lemma single_empty_text_lines:
  "codex_lines single_empty_text = [ascii ''{\"type\":\"output_text\",\"text\":[]}'']"
  by (simp add: single_empty_text_def lines_eval)

lemma single_empty_text_events:
  "decoded_events (codex_lines single_empty_text) =
     [JObj [(ascii ''type'', JStr (ascii ''output_text'')), (ascii ''text'', JArr [])]]"
  by (simp add: decoded_events_def single_empty_text_lines parse_output_text_array)

lemma single_empty_text_captured: "captured_values ns single_empty_text = [JArr []]"
  by (simp add: captured_values_def single_empty_text_events body_eval)

lemma two_empty_texts_lines:
  "codex_lines two_empty_texts =
     [ascii ''{\"type\":\"output_text\",\"text\":[]}'',
      ascii ''{\"type\":\"output_text\",\"text\":[]}'']"
  by (simp add: two_empty_texts_def lines_eval)

lemma two_empty_texts_events:
  "decoded_events (codex_lines two_empty_texts) =
     [JObj [(ascii ''type'', JStr (ascii ''output_text'')), (ascii ''text'', JArr [])],
      JObj [(ascii ''type'', JStr (ascii ''output_text'')), (ascii ''text'', JArr [])]]"
  by (simp add: decoded_events_def two_empty_texts_lines parse_output_text_array)

lemma two_empty_texts_captured: "captured_values ns two_empty_texts = [JArr [], JArr []]"
  by (simp add: captured_values_def two_empty_texts_events body_eval)

theorem fallback_when_join_is_empty_witness:
  "parseCodexOutput literal_text silent_events = Inr silent_events
   \<and> parseCodexOutput literal_text single_empty_text = Inr single_empty_text
   \<and> parseCodexOutput literal_text two_empty_texts = Inr [0x0A]
   \<and> contributed literal_text
        (JObj [(ascii ''type'', JStr (ascii ''message'')),
               (ascii ''content'',
                JArr [JObj [(ascii ''type'', JStr (ascii ''text'')), (ascii ''text'', JStr [])]])])
       = []
   \<and> outcomes (executeCodex literal_text 180000 [Close (Some 0)]) = [Resolved []]
   \<and> outcomes (executeCodex literal_text 180000 [StderrData (ascii ''boom''), Close (Some 1)]) =
       [Rejected (ascii ''Codex exited with code 1: boom'')]"
proof -
  have a: "parseCodexOutput literal_text silent_events = Inr silent_events"
    using fallback_when_join_is_empty [of literal_text silent_events]
    by (simp add: silent_events_captured)
  have b: "parseCodexOutput literal_text single_empty_text = Inr single_empty_text"
    using fallback_when_join_is_empty [of literal_text single_empty_text]
    by (simp add: single_empty_text_captured)
  have c: "parseCodexOutput literal_text two_empty_texts = Inr [0x0A]"
    using fallback_when_join_is_empty [of literal_text two_empty_texts "[0x0A]"]
    by (simp add: two_empty_texts_captured)
  have p: "contributed literal_text
        (JObj [(ascii ''type'', JStr (ascii ''message'')),
               (ascii ''content'',
                JArr [JObj [(ascii ''type'', JStr (ascii ''text'')), (ascii ''text'', JStr [])]])])
       = []"
    using fallback_when_join_is_empty
      [of literal_text "[]" "[]"
          "[(ascii ''type'', JStr (ascii ''message'')),
            (ascii ''content'',
             JArr [JObj [(ascii ''type'', JStr (ascii ''text'')), (ascii ''text'', JStr [])]])]"
          "[(ascii ''type'', JStr (ascii ''text'')), (ascii ''text'', JStr [])]"]
    by (simp add: own_property_def) (simp add: ascii_def)
  have d: "outcomes (executeCodex literal_text 180000 [Close (Some 0)]) = [Resolved []]"
    using fallback_when_join_is_empty
      [of literal_text "[]" "[]" "[]" "[]" "[]" 180000 "Some 0" "[]"]
    by simp
  have one: "exit_code_text (Some 1) = ascii ''1''"
    by (simp add: exit_code_text_def js_int_to_string_def decimal.simps ascii_def)
  have e: "outcomes (executeCodex literal_text 180000 [StderrData (ascii ''boom''), Close (Some 1)]) =
       [Rejected (ascii ''Codex exited with code 1: boom'')]"
    using fallback_when_join_is_empty
      [of literal_text "[]" "[]" "[]" "[]" "[StderrData (ascii ''boom'')]" 180000 "Some 1" "[]"]
    by (simp add: one) (simp add: ascii_def)
  from a b c p d e show ?thesis by blast
qed

text \<open>
  C10, as it is worded, fails twice. Two output_text events whose text is an empty array
  capture two values that print as the empty string, so no event contributes a
  non-empty fragment; the join is the newline between them, and the parser returns that
  newline, not its input. And an engine that emits nothing and exits with code 1 yields
  no empty result: the call is rejected.
\<close>

theorem empty_fragments_counterexample:
  "list_all (\<lambda>v. ToString literal_text v = Inr []) (captured_values literal_text two_empty_texts)
   \<and> parseCodexOutput literal_text two_empty_texts = Inr [0x0A]
   \<and> parseCodexOutput literal_text two_empty_texts \<noteq> Inr two_empty_texts
   \<and> outcomes (executeCodex literal_text 180000 [Close (Some 1)]) =
       [Rejected (ascii ''Codex exited with code 1: No output'')]"
proof -
  have p: "list_all (\<lambda>v. ToString literal_text v = Inr [])
             (captured_values literal_text two_empty_texts)"
    by (simp add: two_empty_texts_captured)
  have c: "parseCodexOutput literal_text two_empty_texts = Inr [0x0A]"
    by (simp add: parseCodexOutput_def for_lines_captured two_empty_texts_captured)
  have n: "[0x0A] \<noteq> two_empty_texts"
    by (simp add: two_empty_texts_def ascii_def)
  have one: "exit_code_text (Some 1) = ascii ''1''"
    by (simp add: exit_code_text_def js_int_to_string_def decimal.simps ascii_def)
  have e: "outcomes (executeCodex literal_text 180000 [Close (Some 1)]) =
       [Rejected (ascii ''Codex exited with code 1: No output'')]"
    using close_without_output [of "[]" literal_text 180000 "Some 1" "[]"]
    by (simp add: one) (simp add: ascii_def)
  from p c n e show ?thesis by simp
qed

section \<open>An exception of the parser leaves the promise unsettled\<close>

lemma toString_text_lines: "codex_lines toString_text = [toString_text]"
  by (simp add: toString_text_def lines_eval)

lemma parse_toString_text:
  "JSON_parse toString_text =
     Inr (JObj [(ascii ''type'', JStr (ascii ''output_text'')),
                (ascii ''text'', JObj [(ascii ''toString'', JNum (ascii ''0''))])])"
  by (simp add: toString_text_def json_eval)

lemma parseCodexOutput_toString_text: "parseCodexOutput ns toString_text = Inl TypeError"
  by (simp add: parseCodexOutput_def for_lines_contributed decoded_events_def
      toString_text_lines parse_toString_text body_eval)

lemma toString_part_lines: "codex_lines toString_part = [toString_part]"
  by (simp add: toString_part_def lines_eval)

lemma parse_toString_part:
  "JSON_parse toString_part =
     Inr (JObj [(ascii ''type'', JStr (ascii ''message'')),
                (ascii ''content'',
                 JArr [JObj [(ascii ''type'', JStr (ascii ''text'')),
                             (ascii ''text'', JObj [(ascii ''toString'', JNum (ascii ''0''))])]])])"
  by (simp add: toString_part_def json_eval)

lemma parseCodexOutput_toString_part: "parseCodexOutput ns toString_part = Inl TypeError"
  by (simp add: parseCodexOutput_def for_lines_contributed decoded_events_def
      toString_part_lines parse_toString_part body_eval)

text \<open>
  C1 at a failing trace. The child prints one output_text event whose text is an object
  with a property named \<^verbatim>\<open>toString\<close> and exits with code 0. The close callback sets the
  flag and clears the timer; \<^verbatim>\<open>messages.join\<close> then throws inside
  \<^verbatim>\<open>parseCodexOutput\<close>, so \<^verbatim>\<open>resolve\<close> is never called, and the timer, already
  cleared, cannot reject either: the promise does not settle.
\<close>

theorem close_with_throwing_parser_never_settles:
  "outcomes (executeCodex ns timeout [StdoutData toString_text, Close (Some 0), Timer]) = []
   \<and> settled (executeCodex ns timeout [StdoutData toString_text, Close (Some 0), Timer])
   \<and> uncaught (executeCodex ns timeout [StdoutData toString_text, Close (Some 0), Timer])
       = [TypeError]"
  by (simp add: executeCodex_def spawned_def parseCodexOutput_toString_text)

text \<open>
  C2 at a failing trace. The captured output is not blank, so the close callback takes
  the branch that resolves, with exit code 1 as with any other; the parser throws, and
  the promise is neither resolved nor rejected.
\<close>

theorem close_with_output_does_not_resolve:
  "js_trim toString_part \<noteq> []
   \<and> outcomes (executeCodex ns timeout [StdoutData toString_part, Close (Some 1)]) = []
   \<and> uncaught (executeCodex ns timeout [StdoutData toString_part, Close (Some 1)]) = [TypeError]"
proof -
  have "js_trim toString_part \<noteq> []"
    by (simp add: toString_part_def lines_eval)
  then show ?thesis
    by (simp add: executeCodex_def spawned_def parseCodexOutput_toString_part)
qed


section \<open>Context files: faults stay in the block\<close>

lemma validateAndReadFile_string_returns:
  "\<exists>block. fst (validateAndReadFile ns fs (JStr path)) = Inr block"
  by (simp add: validateAndReadFile_def split: option.splits)

lemma read_context_files_strings:
  "fst (read_context_files ns fs (map JStr paths)) = Inr (map (block_of ns fs) paths)"
proof (induction paths)
  case Nil
  then show ?case by simp
next
  case (Cons path paths)
  obtain block where b: "fst (validateAndReadFile ns fs (JStr path)) = Inr block"
    using validateAndReadFile_string_returns by blast
  then show ?case
    using Cons.IH
    by (cases "validateAndReadFile ns fs (JStr path)"; cases "read_context_files ns fs (map JStr paths)")
      (simp add: block_of_def)
qed

text \<open>
  What holds of the function. A path that is a string never makes it throw: the block is
  the header and the content, or a placeholder. A value that is not a string gives the
  \<^verbatim>\<open>(Invalid path type)\<close> placeholder when it can be printed. Over a list of paths
  that are strings the blocks are those of the paths, one by one.
\<close>

lemma validateAndReadFile_contains_faults:
  "(\<exists>block. fst (validateAndReadFile ns fs (JStr path)) = Inr block)
   \<and> ((\<forall>p. v \<noteq> JStr p) \<and> ToString ns v = Inr shown
        \<longrightarrow> validateAndReadFile ns fs v =
              (Inr (ascii ''--- File: '' @ shown @ ascii '' --- (Invalid path type)''), []))
   \<and> (resolve fs path = Some resolved \<and> statSync fs resolved = Some st \<and> \<not> isFile st
        \<longrightarrow> fst (validateAndReadFile ns fs (JStr path)) =
              Inr (ascii ''--- File: '' @ path @ ascii '' --- (Not a regular file)''))
   \<and> (resolve fs path = None
        \<or> (resolve fs path = Some resolved \<and> statSync fs resolved = None)
        \<or> (resolve fs path = Some resolved \<and> statSync fs resolved = Some st \<and> isFile st
            \<and> size st \<le> 5 * 1024 * 1024 \<and> readFileSync fs resolved = None)
        \<longrightarrow> fst (validateAndReadFile ns fs (JStr path)) =
              Inr (ascii ''--- File: '' @ path @ ascii '' --- (Error reading file)''))
   \<and> (resolve fs path = Some resolved \<and> statSync fs resolved = Some st \<and> isFile st
        \<and> size st \<le> 5 * 1024 * 1024 \<and> readFileSync fs resolved = Some content
        \<longrightarrow> fst (validateAndReadFile ns fs (JStr path)) =
              Inr (ascii ''--- File: '' @ path @ ascii '' ---'' @ [0x0A] @ content))
   \<and> fst (read_context_files ns fs (map JStr paths)) = Inr (map (block_of ns fs) paths)"
proof (intro conjI impI)
  show "\<exists>block. fst (validateAndReadFile ns fs (JStr path)) = Inr block"
    by (simp add: validateAndReadFile_def split: option.splits)
next
  assume "(\<forall>p. v \<noteq> JStr p) \<and> ToString ns v = Inr shown"
  then show "validateAndReadFile ns fs v =
      (Inr (ascii ''--- File: '' @ shown @ ascii '' --- (Invalid path type)''), [])"
    by (cases v) (simp_all add: validateAndReadFile_def file_header_def ascii_def)
next
  assume "resolve fs path = Some resolved \<and> statSync fs resolved = Some st \<and> \<not> isFile st"
  then show "fst (validateAndReadFile ns fs (JStr path)) =
      Inr (ascii ''--- File: '' @ path @ ascii '' --- (Not a regular file)'')"
    by (simp add: validateAndReadFile_def file_header_def ascii_def)
next
  assume "resolve fs path = None
        \<or> (resolve fs path = Some resolved \<and> statSync fs resolved = None)
        \<or> (resolve fs path = Some resolved \<and> statSync fs resolved = Some st \<and> isFile st
            \<and> size st \<le> 5 * 1024 * 1024 \<and> readFileSync fs resolved = None)"
  then show "fst (validateAndReadFile ns fs (JStr path)) =
      Inr (ascii ''--- File: '' @ path @ ascii '' --- (Error reading file)'')"
    by (auto simp: validateAndReadFile_def file_header_def ascii_def MAX_FILE_SIZE_def)
next
  assume "resolve fs path = Some resolved \<and> statSync fs resolved = Some st \<and> isFile st
        \<and> size st \<le> 5 * 1024 * 1024 \<and> readFileSync fs resolved = Some content"
  then show "fst (validateAndReadFile ns fs (JStr path)) =
      Inr (ascii ''--- File: '' @ path @ ascii '' ---'' @ [0x0A] @ content)"
    by (simp add: validateAndReadFile_def file_header_def ascii_def MAX_FILE_SIZE_def)
next
  show "fst (read_context_files ns fs (map JStr paths)) = Inr (map (block_of ns fs) paths)"
    by (rule read_context_files_strings)
qed

lemma example_fs_files:
  "statSync example_fs (ascii ''/work/notes.txt'') = Some \<lparr> isFile = True, size = 5 \<rparr>"
  "readFileSync example_fs (ascii ''/work/notes.txt'') = Some (ascii ''hello'')"
  "statSync example_fs (ascii ''/work/src'') = Some \<lparr> isFile = False, size = 4096 \<rparr>"
  "statSync example_fs (ascii ''/work/gone.txt'') = None"
  "statSync example_fs (ascii ''/work/locked.txt'') = Some \<lparr> isFile = True, size = 9 \<rparr>"
  "readFileSync example_fs (ascii ''/work/locked.txt'') = None"
  by (simp_all add: example_fs_def ascii_def)

lemma validateAndReadFile_examples:
  "fst (validateAndReadFile literal_text example_fs (JStr (ascii ''notes.txt''))) =
     Inr (ascii ''--- File: notes.txt ---'' @ [0x0A] @ ascii ''hello'')
   \<and> fst (validateAndReadFile literal_text example_fs (JStr (ascii ''src''))) =
     Inr (ascii ''--- File: src --- (Not a regular file)'')
   \<and> fst (validateAndReadFile literal_text example_fs (JStr (ascii ''gone.txt''))) =
     Inr (ascii ''--- File: gone.txt --- (Error reading file)'')
   \<and> fst (validateAndReadFile literal_text example_fs (JStr (ascii ''locked.txt''))) =
     Inr (ascii ''--- File: locked.txt --- (Error reading file)'')
   \<and> validateAndReadFile literal_text example_fs (JBool True) =
     (Inr (ascii ''--- File: true --- (Invalid path type)''), [])
   \<and> fst (read_context_files literal_text example_fs
          [JStr (ascii ''gone.txt''), JStr (ascii ''notes.txt'')]) =
     Inr [ascii ''--- File: gone.txt --- (Error reading file)'',
          ascii ''--- File: notes.txt ---'' @ [0x0A] @ ascii ''hello'']"
proof -
  have r: "\<And>p. resolve example_fs (ascii p) = Some (ascii (''/work/'' @ p))"
    by (simp add: example_fs_resolve ascii_def)
  have a: "fst (validateAndReadFile literal_text example_fs (JStr (ascii ''notes.txt''))) =
     Inr (ascii ''--- File: notes.txt ---'' @ [0x0A] @ ascii ''hello'')"
    using validateAndReadFile_contains_faults
      [of literal_text example_fs "ascii ''notes.txt''" JNull "[]" "ascii ''/work/notes.txt''"
          "\<lparr> isFile = True, size = 5 \<rparr>" "ascii ''hello''"]
    by (simp add: r [of "''notes.txt''", simplified] example_fs_files) (simp add: ascii_def)
  have b: "fst (validateAndReadFile literal_text example_fs (JStr (ascii ''src''))) =
     Inr (ascii ''--- File: src --- (Not a regular file)'')"
    using validateAndReadFile_contains_faults
      [of literal_text example_fs "ascii ''src''" JNull "[]" "ascii ''/work/src''"
          "\<lparr> isFile = False, size = 4096 \<rparr>" "[]"]
    by (simp add: r [of "''src''", simplified] example_fs_files) (simp add: ascii_def)
  have c: "fst (validateAndReadFile literal_text example_fs (JStr (ascii ''gone.txt''))) =
     Inr (ascii ''--- File: gone.txt --- (Error reading file)'')"
    using validateAndReadFile_contains_faults
      [of literal_text example_fs "ascii ''gone.txt''" JNull "[]" "ascii ''/work/gone.txt''"
          "\<lparr> isFile = False, size = 0 \<rparr>" "[]"]
    by (simp add: r [of "''gone.txt''", simplified] example_fs_files) (simp add: ascii_def)
  have d: "fst (validateAndReadFile literal_text example_fs (JStr (ascii ''locked.txt''))) =
     Inr (ascii ''--- File: locked.txt --- (Error reading file)'')"
    using validateAndReadFile_contains_faults
      [of literal_text example_fs "ascii ''locked.txt''" JNull "[]" "ascii ''/work/locked.txt''"
          "\<lparr> isFile = True, size = 9 \<rparr>" "[]"]
    by (simp add: r [of "''locked.txt''", simplified] example_fs_files) (simp add: ascii_def)
  have e: "validateAndReadFile literal_text example_fs (JBool True) =
     (Inr (ascii ''--- File: true --- (Invalid path type)''), [])"
    using validateAndReadFile_contains_faults
      [of literal_text example_fs "[]" "JBool True" "ascii ''true''"]
    by (simp add: ascii_def)
  have f: "fst (read_context_files literal_text example_fs
          [JStr (ascii ''gone.txt''), JStr (ascii ''notes.txt'')]) =
     Inr [ascii ''--- File: gone.txt --- (Error reading file)'',
          ascii ''--- File: notes.txt ---'' @ [0x0A] @ ascii ''hello'']"
    using validateAndReadFile_contains_faults
      [of literal_text example_fs "[]" JNull "[]" "[]" "\<lparr> isFile = False, size = 0 \<rparr>" "[]"
          "[ascii ''gone.txt'', ascii ''notes.txt'']"]
    by (simp add: block_of_def a c)
  from a b c d e f show ?thesis by blast
qed

lemma architect_is_valid:
  "ascii ''architect'' \<noteq> []" "ascii ''architect'' \<in> set CODEX_VALID_ROLES"
  by (simp_all add: CODEX_VALID_ROLES_def ascii_def)

text \<open>
  C7 at a failing input. The second path of the request is not a string but an object
  with a property named \<^verbatim>\<open>toString\<close>. The first branch of
  \<^verbatim>\<open>validateAndReadFile\<close> prints the value in a template literal, which stands
  before the \<^verbatim>\<open>try\<close>: the conversion throws a TypeError, no placeholder is returned,
  and the exception leaves \<^verbatim>\<open>handleAskCodex\<close> too, although the first file is
  readable.
\<close>

theorem unprintable_path_fails_request:
  "validateAndReadFile literal_text example_fs (JObj [(ascii ''toString'', JNum (ascii ''0''))])
     = (Inl TypeError, [])
   \<and> fst (validateAndReadFile literal_text example_fs (JStr (ascii ''notes.txt''))) =
       Inr (ascii ''--- File: notes.txt ---'' @ [0x0A] @ ascii ''hello'')
   \<and> fst (handleAskCodex example_host unprintable_request) = Throws TypeError"
proof -
  have bad: "validateAndReadFile literal_text example_fs
               (JObj [(ascii ''toString'', JNum (ascii ''0''))]) = (Inl TypeError, [])"
    by (simp add: validateAndReadFile_def own_property_def)
  have good: "fst (validateAndReadFile literal_text example_fs (JStr (ascii ''notes.txt''))) =
       Inr (ascii ''--- File: notes.txt ---'' @ [0x0A] @ ascii ''hello'')"
    using validateAndReadFile_examples by blast
  have "fst (handleAskCodex example_host unprintable_request) = Throws TypeError"
    using good
    by (cases "validateAndReadFile literal_text example_fs (JStr (ascii ''notes.txt''))")
      (simp add: handleAskCodex_def unprintable_request_def architect_is_valid example_host_def
        MAX_CONTEXT_FILES_def bad)
  with bad good show ?thesis by blast
qed

section \<open>Too many context files\<close>








end
